theory Spec2Isabelle
  imports Main "HOL-Library.Sublist"
begin

section \<open>The tunneling part of configuration.go\<close>

text \<open>
  A shallow embedding of the ngrok tunneling code of \<^verbatim>\<open>configuration.go\<close>:
  \<^verbatim>\<open>isNgrokRunning\<close>, \<^verbatim>\<open>startTunnel\<close>, \<^verbatim>\<open>stopTunnel\<close> and \<^verbatim>\<open>createTunnel\<close>.

  The functions talk to the outside (net/http, os/exec, os, encoding/json, the pipe of the
  spawned process). What the outside answers is a parameter of the model, the record
  \<open>world\<close>; what the functions ask of it is recorded, in order, as a list of events.
  A Go \<^verbatim>\<open>error\<close> result is an \<open>error option\<close> (\<open>None\<close> is \<^verbatim>\<open>nil\<close>), a run-time panic is
  the outcome \<open>Panic\<close>, and a pointer to a string is a \<open>string option\<close> (\<open>None\<close> is the nil
  pointer, \<open>Some s\<close> a cell that holds \<open>s\<close>).
\<close>

subsection \<open>Errors and outcomes\<close>

datatype error =
    New string  \<comment> \<open>\<^verbatim>\<open>errors.New(text)\<close> and \<^verbatim>\<open>fmt.Errorf(text)\<close>: an error made here, with its text\<close>
  | Lib string  \<comment> \<open>an error value handed back by a library call, with its text\<close>

datatype 'a outcome =
    Return 'a
  | Panic  \<comment> \<open>nil pointer dereference\<close>

subsection \<open>The structs\<close>

record Tunnel =
  Name :: string
  Addr :: string

record TunnelingConfiguration =
  AuthToken :: string
  Bin :: string
  WebInterface :: string
  Region :: string
  Tunnels :: "Tunnel list"

text \<open>
  \<^verbatim>\<open>ngrokTunnel\<close>, lines 634-640. Its first two fields are \<^verbatim>\<open>Name\<close> and \<^verbatim>\<open>Addr\<close> in the
  source; they are written \<open>tunnelName\<close> and \<open>tunnelAddr\<close> here, as a record cannot share
  field names with \<open>Tunnel\<close>.
\<close>

record ngrokTunnel =
  tunnelName :: string
  tunnelAddr :: string
  Proto :: string
  Auth :: string
  BindTLS :: bool

text \<open>\<^verbatim>\<open>publicAddrOrErrResp\<close>, lines 749-755, with its anonymous \<^verbatim>\<open>Details\<close> struct.\<close>

record details =
  ErrorText :: string

record publicAddrOrErrResp =
  PublicAddr :: string
  Details :: details
  ErrMsg :: string

text \<open>What the code reads of an \<^verbatim>\<open>http.Response\<close>.\<close>

record response =
  StatusCode :: int
  Body :: string

subsection \<open>JSON documents and the encoding of the request\<close>

datatype json =
    JString string
  | JBool bool
  | JObject "(string \<times> json) list"

text \<open>
  \<^verbatim>\<open>encoding/json\<close> writes a Go string as valid UTF-8: it walks the bytes, keeps every
  ASCII byte and every well-formed multi-byte sequence, and writes U+FFFD (the bytes
  \<^verbatim>\<open>EF BF BD\<close>) for each byte at which \<^verbatim>\<open>utf8.DecodeRuneInString\<close> gives
  \<^verbatim>\<open>(RuneError, 1)\<close>. (Its escapes, for quotes, control characters, \<^verbatim>\<open><\<close>, \<^verbatim>\<open>>\<close>,
  \<^verbatim>\<open>&\<close>, U+2028 and U+2029, change the bytes of the document and not the string they
  stand for.)

  \<open>utf8_DecodeRuneInString s\<close> is the size \<^verbatim>\<open>utf8.DecodeRuneInString(s)\<close> gives for a
  non-empty \<open>s\<close>, \<open>None\<close> standing for \<^verbatim>\<open>(RuneError, 1)\<close>: by the first byte the size of the
  sequence and the range of the second byte, the sequence must be there in full, and the
  third and fourth bytes are continuation bytes.
\<close>

definition utf8_DecodeRuneInString :: "string \<Rightarrow> nat option" where
  "utf8_DecodeRuneInString s =
     (let s0 = (of_char (s ! 0) :: nat) in
      if s0 < 0x80 then Some 1
      else if s0 < 0xC2 \<or> 0xF4 < s0 then None
      else
        (let sz = (if s0 < 0xE0 then 2 else if s0 < 0xF0 then 3 else 4);
             lo = (if s0 = 0xE0 then 0xA0 else if s0 = 0xF0 then 0x90 else (0x80 :: nat));
             hi = (if s0 = 0xED then 0x9F else if s0 = 0xF4 then 0x8F else (0xBF :: nat))
         in
         if length s < sz then None
         else
           (let s1 = (of_char (s ! 1) :: nat) in
            if s1 < lo \<or> hi < s1 then None
            else if sz \<le> 2 then Some 2
            else
              (let s2 = (of_char (s ! 2) :: nat) in
               if s2 < 0x80 \<or> 0xBF < s2 then None
               else if sz \<le> 3 then Some 3
               else
                 (let s3 = (of_char (s ! 3) :: nat) in
                  if s3 < 0x80 \<or> 0xBF < s3 then None else Some 4)))))"

text \<open>
  The string as \<^verbatim>\<open>encoding/json\<close> writes it. \<open>coerceUTF8 k s\<close> copies the \<open>k\<close> bytes left
  of the sequence it is in, and then decodes.
\<close>

fun coerceUTF8 :: "nat \<Rightarrow> string \<Rightarrow> string" where
  "coerceUTF8 k [] = []"
| "coerceUTF8 (Suc k) (c # cs) = c # coerceUTF8 k cs"
| "coerceUTF8 0 (c # cs) =
     (case utf8_DecodeRuneInString (c # cs) of
        None \<Rightarrow> [CHR 0xEF, CHR 0xBF, CHR 0xBD] @ coerceUTF8 0 cs
      | Some n \<Rightarrow> c # coerceUTF8 (n - 1) cs)"

definition json_string :: "string \<Rightarrow> string" where
  "json_string s = coerceUTF8 0 s"

text \<open>
  \<^verbatim>\<open>json.Marshal\<close> on an \<^verbatim>\<open>ngrokTunnel\<close>: one member per exported field, in the order of
  the declaration, under the name of its \<^verbatim>\<open>json\<close> tag. No tag of the struct says
  \<^verbatim>\<open>omitempty\<close>, so every field is written. The document stands for the bytes that encode
  it. Strings and booleans always encode, so the error result is never taken.
\<close>

definition json_Marshal :: "ngrokTunnel \<Rightarrow> error + json" where
  "json_Marshal v =
     Inr (JObject
       [(''name'', JString (json_string (tunnelName v))),
        (''addr'', JString (json_string (tunnelAddr v))),
        (''proto'', JString (json_string (Proto v))),
        (''auth'', JString (json_string (Auth v))),
        (''bind_tls'', JBool (BindTLS v))])"

subsection \<open>The outside\<close>

text \<open>
  A call of \<^verbatim>\<open>net/http\<close> gives back \<^verbatim>\<open>(resp, err)\<close>, here a pair of options. The library
  gives a nil response with every error but one: when the redirect policy fails (the default
  client stops after ten redirects) both are non-nil, and the body is already closed.
\<close>

type_synonym http_result = "response option \<times> error option"

record world =
  http_Get :: "string \<Rightarrow> http_result"
  exec_LookPath :: "string \<Rightarrow> string \<times> error option"
  os_LookupEnv :: "string \<Rightarrow> string option"
  cmd_Run :: "string list \<Rightarrow> error option"
  cmd_StdoutPipe :: "string list \<Rightarrow> error option"
  cmd_Start :: "string list \<Rightarrow> error option"
  stdout_Read :: "nat \<Rightarrow> string \<times> error option"
  http_Post :: "string \<Rightarrow> string \<Rightarrow> json \<Rightarrow> http_result"
  json_Decode :: "string \<Rightarrow> error + publicAddrOrErrResp"
  http_NewRequest :: "string \<Rightarrow> string \<Rightarrow> error option"
  client_Do :: "string \<Rightarrow> string \<Rightarrow> http_result"

text \<open>
  \<^item> \<open>cmd_Run\<close>, \<open>cmd_StdoutPipe\<close> and \<open>cmd_Start\<close> take the \<^verbatim>\<open>Args\<close> of the command, the
    name of the binary first.
  \<^item> \<open>stdout_Read w k\<close> is the \<open>k\<close>-th \<^verbatim>\<open>stdout.Read(p)\<close>, counted from 0: the bytes
    \<^verbatim>\<open>p[:n]\<close> it read (at most 256, the length of \<^verbatim>\<open>p\<close>) and its error.
  \<^item> \<open>json_Decode w body\<close> is \<^verbatim>\<open>json.NewDecoder(body).Decode(&apiResponse)\<close>: the error,
    or the struct as decoded.
  \<^item> \<open>http_NewRequest w method url\<close> is the error of \<^verbatim>\<open>http.NewRequest\<close> (a URL that does
    not parse), and \<open>client_Do w method url\<close> sends the request.
\<close>

datatype event =
    Get string
  | LookPath string
  | LookupEnv string
  | Run "string list"
  | StdoutPipe "string list"
  | Start "string list"
  | Read nat
  | Post string string json
  | Do string string

text \<open>The events that go over the network.\<close>

fun network_call :: "event \<Rightarrow> bool" where
  "network_call (Get url) = True"
| "network_call (Post url ct body) = True"
| "network_call (Do m url) = True"
| "network_call ev = False"

text \<open>The events that run the agent's binary, and the binary they run.\<close>

fun command :: "event \<Rightarrow> string list option" where
  "command (Run args) = Some args"
| "command (StdoutPipe args) = Some args"
| "command (Start args) = Some args"
| "command ev = None"

text \<open>The events of the launcher: resolving the binary, running it, reading its output.\<close>

fun launcher_step :: "event \<Rightarrow> bool" where
  "launcher_step (LookPath file) = True"
| "launcher_step (LookupEnv key) = True"
| "launcher_step (Run args) = True"
| "launcher_step (StdoutPipe args) = True"
| "launcher_step (Start args) = True"
| "launcher_step (Read k) = True"
| "launcher_step ev = False"

text \<open>The documents POSTed, and the names of the members of a document.\<close>

fun posted :: "event list \<Rightarrow> json list" where
  "posted [] = []"
| "posted (Post url ct doc # evs) = doc # posted evs"
| "posted (ev # evs) = posted evs"

fun fields :: "json \<Rightarrow> string list" where
  "fields (JObject members) = map fst members"
| "fields doc = []"

subsection \<open>Constants of other packages\<close>


text \<open>
  Modelled from the spec: \<^verbatim>\<open>context.ContentJSONHeaderValue\<close> is declared in the package
  \<^verbatim>\<open>context\<close>; it is the content type of a JSON document.
\<close>

definition ContentJSONHeaderValue :: string where
  "ContentJSONHeaderValue = ''application/json''"

subsection \<open>\<^verbatim>\<open>isNgrokRunning\<close>, lines 627-631\<close>

text \<open>
  \<^verbatim>\<open>resp.Body.Close()\<close> runs before the error is looked at: with a nil \<^verbatim>\<open>resp\<close> it is a nil
  pointer dereference.
\<close>

definition isNgrokRunning :: "world \<Rightarrow> TunnelingConfiguration \<Rightarrow> bool outcome \<times> event list" where
  "isNgrokRunning w tc =
     (case http_Get w (WebInterface tc) of (resp, err) \<Rightarrow>
        (case resp of
           None \<Rightarrow> (Panic, [Get (WebInterface tc)])
         | Some r \<Rightarrow> (Return (err = None), [Get (WebInterface tc)])))"

subsection \<open>\<^verbatim>\<open>createTunnel\<close>, lines 736-774\<close>

text \<open>
  The result is what the call returns, the cell behind \<^verbatim>\<open>publicAddr\<close> afterwards, and the
  events. \<^verbatim>\<open>defer resp.Body.Close()\<close> reads \<^verbatim>\<open>resp.Body\<close> at once: a nil \<^verbatim>\<open>resp\<close> with a nil
  error panics there. The store through a nil \<^verbatim>\<open>publicAddr\<close> panics.
\<close>

definition createTunnel ::
  "world \<Rightarrow> TunnelingConfiguration \<Rightarrow> ngrokTunnel \<Rightarrow> string option
     \<Rightarrow> error option outcome \<times> string option \<times> event list" where
  "createTunnel w tc tunnelAPIRequest publicAddr =
     (let url = WebInterface tc @ ''/api/tunnels'' in
      case json_Marshal tunnelAPIRequest of
        Inl err \<Rightarrow> (Return (Some err), publicAddr, [])
      | Inr requestData \<Rightarrow>
          (let posted = [Post url ContentJSONHeaderValue requestData] in
           case http_Post w url ContentJSONHeaderValue requestData of (resp, err) \<Rightarrow>
             (case err of
                Some e \<Rightarrow> (Return (Some e), publicAddr, posted)
              | None \<Rightarrow>
                  (case resp of
                     None \<Rightarrow> (Panic, publicAddr, posted)
                   | Some r \<Rightarrow>
                       (case json_Decode w (Body r) of
                          Inl e \<Rightarrow> (Return (Some e), publicAddr, posted)
                        | Inr apiResponse \<Rightarrow>
                            if ErrMsg apiResponse \<noteq> ''''
                            then (Return (Some (New (ErrMsg apiResponse))), publicAddr, posted)
                            else if ErrorText (Details apiResponse) \<noteq> ''''
                            then (Return (Some (New (ErrorText (Details apiResponse)))),
                                  publicAddr, posted)
                            else (case publicAddr of
                                    None \<Rightarrow> (Panic, publicAddr, posted)
                                  | Some old \<Rightarrow>
                                      (Return None, Some (PublicAddr apiResponse), posted)))))))"

subsection \<open>\<^verbatim>\<open>startTunnel\<close>, lines 642-714\<close>

text \<open>
  The function is modelled in the four parts it has after the health probe: the resolution
  of the binary (lines 651-665), the two commands (lines 667-693), the readiness loop
  (lines 695-710), and \<^verbatim>\<open>createTunnel\<close>.
\<close>

definition notFound :: string where
  "notFound = [CHR 0x22] @ ''ngrok'' @ [CHR 0x22] @
     '' executable not found, please install it from: https://ngrok.com/download''"

text \<open>
  Lines 651-665: the binary, or the error. \<^verbatim>\<open>exec.LookPath\<close> gives a path and an error;
  the code drops the path and keeps the name it looked for.
\<close>

definition resolveBinary ::
  "world \<Rightarrow> TunnelingConfiguration \<Rightarrow> (error + string) \<times> event list" where
  "resolveBinary w tc =
     (let ngrokBin = ''ngrok'' in
      if Bin tc = '''' then
        (case exec_LookPath w ngrokBin of (path, err) \<Rightarrow>
           (case err of
              Some e \<Rightarrow>
                (case os_LookupEnv w ''NGROK'' of
                   None \<Rightarrow> (Inl (New notFound), [LookPath ngrokBin, LookupEnv ''NGROK''])
                 | Some ngrokEnvVar \<Rightarrow>
                     (Inr ngrokEnvVar, [LookPath ngrokBin, LookupEnv ''NGROK'']))
            | None \<Rightarrow> (Inr ngrokBin, [LookPath ngrokBin])))
      else (Inr (Bin tc), []))"

text \<open>
  Lines 667-693: the \<^verbatim>\<open>authtoken\<close> command when a token is configured, then the
  \<^verbatim>\<open>start\<close> command, with its pipe. The result is the error the block returns with, if any.
\<close>

definition spawnAgent ::
  "world \<Rightarrow> TunnelingConfiguration \<Rightarrow> string \<Rightarrow> error option \<times> event list" where
  "spawnAgent w tc ngrokBin =
     (let auth = [ngrokBin, ''authtoken'', AuthToken tc];
          authed = (if AuthToken tc \<noteq> '''' then [Run auth] else []);
          args = [ngrokBin, ''start'', ''-none'', ''-log'', ''stdout'']
                 @ (if Region tc \<noteq> '''' then [''-region'', Region tc] else [])
      in
      if AuthToken tc \<noteq> '''' \<and> cmd_Run w auth \<noteq> None then (cmd_Run w auth, authed)
      else
        (case cmd_StdoutPipe w args of
           Some e \<Rightarrow> (Some e, authed @ [StdoutPipe args])
         | None \<Rightarrow>
             (case cmd_Start w args of
                Some e \<Rightarrow> (Some e, authed @ [StdoutPipe args, Start args])
              | None \<Rightarrow> (None, authed @ [StdoutPipe args, Start args]))))"

definition okText :: string where
  "okText = ''client session established''"

text \<open>\<^verbatim>\<open>bytes.Contains(b, subslice)\<close>: \<open>subslice\<close> stands somewhere in \<open>b\<close>.\<close>

fun bytes_Contains :: "string \<Rightarrow> string \<Rightarrow> bool" where
  "bytes_Contains [] subslice = (subslice = [])"
| "bytes_Contains (c # cs) subslice = (prefix subslice (c # cs) \<or> bytes_Contains cs subslice)"

text \<open>
  Lines 695-710, from the \<open>k\<close>-th read on: the loop ends with the error of a read, or with
  \<open>None\<close> at the first chunk that holds \<open>okText\<close>; with it comes the number of reads done so
  far. The error of a read is looked at before its bytes. A loop that never ends has no
  result.
\<close>

partial_function (option) readinessLoop :: "world \<Rightarrow> nat \<Rightarrow> (error option \<times> nat) option" where
  "readinessLoop w k =
     (case stdout_Read w k of (chunk, err) \<Rightarrow>
        (case err of
           Some e \<Rightarrow> Some (Some e, Suc k)
         | None \<Rightarrow>
             if bytes_Contains chunk okText then Some (None, Suc k)
             else readinessLoop w (Suc k)))"

declare readinessLoop.simps [code]

text \<open>The events of a call, put after the events \<open>earlier\<close>.\<close>

fun following ::
  "event list \<Rightarrow> 'a \<times> 'b \<times> event list \<Rightarrow> 'a \<times> 'b \<times> event list" where
  "following earlier (r, cell, events) = (r, cell, earlier @ events)"

text \<open>Lines 643-648.\<close>

definition tunnelAPIRequest :: "Tunnel \<Rightarrow> ngrokTunnel" where
  "tunnelAPIRequest t =
     \<lparr>tunnelName = Name t, tunnelAddr = Addr t, Proto = ''http'', Auth = '''', BindTLS = True\<rparr>"

text \<open>
  Lines 667-713, with the binary resolved: the commands, the loop, and
  \<^verbatim>\<open>createTunnel\<close>. \<open>None\<close> is a call that never returns.
\<close>

definition launch ::
  "world \<Rightarrow> TunnelingConfiguration \<Rightarrow> Tunnel \<Rightarrow> string option \<Rightarrow> event list \<Rightarrow> string
     \<Rightarrow> (error option outcome \<times> string option \<times> event list) option" where
  "launch w tc t publicAddr earlier ngrokBin =
     (case spawnAgent w tc ngrokBin of (err, spawned) \<Rightarrow>
        (case err of
           Some e \<Rightarrow> Some (Return (Some e), publicAddr, earlier @ spawned)
         | None \<Rightarrow>
             (case readinessLoop w 0 of
                None \<Rightarrow> None
              | Some (err, n) \<Rightarrow>
                  (case err of
                     Some e \<Rightarrow>
                       Some (Return (Some e), publicAddr, earlier @ spawned @ map Read [0..<n])
                   | None \<Rightarrow>
                       Some (following (earlier @ spawned @ map Read [0..<n])
                               (createTunnel w tc (tunnelAPIRequest t) publicAddr))))))"

definition startTunnel ::
  "world \<Rightarrow> TunnelingConfiguration \<Rightarrow> Tunnel \<Rightarrow> string option
     \<Rightarrow> (error option outcome \<times> string option \<times> event list) option" where
  "startTunnel w tc t publicAddr =
     (case isNgrokRunning w tc of (running, probed) \<Rightarrow>
        (case running of
           Panic \<Rightarrow> Some (Panic, publicAddr, probed)
         | Return up \<Rightarrow>
             if \<not> up then
               (case resolveBinary w tc of (bin, resolved) \<Rightarrow>
                  (case bin of
                     Inl err \<Rightarrow> Some (Return (Some err), publicAddr, probed @ resolved)
                   | Inr ngrokBin \<Rightarrow> launch w tc t publicAddr (probed @ resolved) ngrokBin))
             else Some (following probed (createTunnel w tc (tunnelAPIRequest t) publicAddr))))"

subsection \<open>\<^verbatim>\<open>stopTunnel\<close>, lines 716-734\<close>





subsection \<open>Concrete inputs\<close>

text \<open>
  The worlds and configurations the properties are evaluated at. In \<open>agentDown\<close> nothing
  listens on the web interface, no binary is installed and \<^verbatim>\<open>NGROK\<close> is not set.
\<close>

definition refused :: error where
  "refused = Lib ''dial tcp 127.0.0.1:4040: connect: connection refused''"

definition agentDown :: world where
  "agentDown =
     \<lparr>http_Get = (\<lambda>url. (None, Some refused)),
      exec_LookPath = (\<lambda>file. ('''', Some (Lib ''executable file not found in $PATH''))),
      os_LookupEnv = (\<lambda>key. None),
      cmd_Run = (\<lambda>args. None),
      cmd_StdoutPipe = (\<lambda>args. None),
      cmd_Start = (\<lambda>args. None),
      stdout_Read = (\<lambda>k. ('''', Some (Lib ''EOF''))),
      http_Post = (\<lambda>url ct doc. (None, Some refused)),
      json_Decode = (\<lambda>body. Inl (Lib ''EOF'')),
      http_NewRequest = (\<lambda>m url. None),
      client_Do = (\<lambda>m url. (None, Some refused))\<rparr>"

text \<open>
  In \<open>agentUp\<close> an agent answers: the probe gets a page, a POST gets the reply \<open>reply\<close>,
  a DELETE gets status 204.
\<close>

definition reply :: "string \<Rightarrow> string \<Rightarrow> string \<Rightarrow> publicAddrOrErrResp" where
  "reply public_url err msg =
     \<lparr>PublicAddr = public_url, Details = \<lparr>ErrorText = err\<rparr>, ErrMsg = msg\<rparr>"

definition agentUp :: "publicAddrOrErrResp \<Rightarrow> world" where
  "agentUp r =
     agentDown
       \<lparr>http_Get := (\<lambda>url. (Some \<lparr>StatusCode = 200, Body = ''<html>''\<rparr>, None)),
        http_Post := (\<lambda>url ct doc. (Some \<lparr>StatusCode = 201, Body = ''{...}''\<rparr>, None)),
        json_Decode := (\<lambda>body. Inr r),
        client_Do := (\<lambda>m url. (Some \<lparr>StatusCode = 204, Body = ''''\<rparr>, None))\<rparr>"

text \<open>
  In \<open>redirecting\<close> the web interface answers every GET with a redirect: the default client
  gives up after ten of them and hands back the last response together with an error. It is
  the one way \<^verbatim>\<open>http.Get\<close> gives a response and an error at once. The agent this world
  starts writes \<open>chunks\<close> to its standard output, one per read, and then ends.
\<close>

definition redirecting :: "string list \<Rightarrow> publicAddrOrErrResp \<Rightarrow> world" where
  "redirecting chunks r =
     (agentUp r)
       \<lparr>http_Get := (\<lambda>url. (Some \<lparr>StatusCode = 302, Body = ''''\<rparr>,
                              Some (Lib ''stopped after 10 redirects''))),
        stdout_Read := (\<lambda>k. if k < length chunks then (chunks ! k, None)
                             else ('''', Some (Lib ''EOF'')))\<rparr>"

definition conf :: "string \<Rightarrow> TunnelingConfiguration" where
  "conf bin =
     \<lparr>AuthToken = '''', Bin = bin, WebInterface = ''http://127.0.0.1:4040'', Region = '''',
      Tunnels = [\<lparr>Name = ''MyApp'', Addr = ''localhost:8080''\<rparr>]\<rparr>"

definition myApp :: Tunnel where
  "myApp = \<lparr>Name = ''MyApp'', Addr = ''localhost:8080''\<rparr>"

text \<open>
  \<open>installed\<close> puts a binary on the search path, \<open>withNGROK\<close> sets the environment
  variable, and in \<open>answering code\<close> every DELETE is answered with the status \<open>code\<close>.
\<close>

definition installed :: "world \<Rightarrow> world" where
  "installed w = w\<lparr>exec_LookPath := (\<lambda>file. (''/usr/local/bin/'' @ file, None))\<rparr>"

definition withNGROK :: "string \<Rightarrow> world \<Rightarrow> world" where
  "withNGROK v w = w\<lparr>os_LookupEnv := (\<lambda>key. if key = ''NGROK'' then Some v else None)\<rparr>"


definition abc123 :: publicAddrOrErrResp where
  "abc123 = reply ''https://abc123.example.com'' '''' ''''"

text \<open>The document \<^verbatim>\<open>startTunnel\<close> posts for \<open>myApp\<close>.\<close>

definition myAppDocument :: json where
  "myAppDocument =
     JObject [(''name'', JString ''MyApp''), (''addr'', JString ''localhost:8080''),
              (''proto'', JString ''http''), (''auth'', JString ''''),
              (''bind_tls'', JBool True)]"

text \<open>An output of the agent with the phrase in its first read.\<close>

definition readyOutput :: "string list" where
  "readyOutput =
     [''lvl=info msg='' @ [CHR 0x22] @ ''client session established'' @ [CHR 0x22]]"




text \<open>
  An output of the agent that holds the phrase, cut by reads of 256 bytes: 250 bytes of
  earlier log, then the phrase, of which 6 bytes fit into the first read.
\<close>

definition splitOutput :: "string list" where
  "splitOutput = [replicate 250 (CHR ''-'') @ ''client'', '' session established'']"

section \<open>Properties\<close>

subsection \<open>The library functions of the model\<close>

lemma json_Marshal_total: "\<exists>doc. json_Marshal v = Inr doc"
  by (simp add: json_Marshal_def)

text \<open>
  A string of ASCII bytes is written as it is; a byte that is not part of a well-formed
  sequence becomes U+FFFD, a well-formed sequence is kept.
\<close>

lemma coerceUTF8_ascii: "\<forall>c \<in> set s. (of_char c :: nat) < 128 \<Longrightarrow> coerceUTF8 0 s = s"
  by (induction s) (simp_all add: utf8_DecodeRuneInString_def)

lemma json_string_ascii: "\<forall>c \<in> set s. (of_char c :: nat) < 128 \<Longrightarrow> json_string s = s"
  by (simp add: json_string_def coerceUTF8_ascii)

lemma json_string_invalid: "json_string [CHR 0xFF] = [CHR 0xEF, CHR 0xBF, CHR 0xBD]"
  by code_simp

lemma json_string_truncated: "json_string [CHR 0xC3] = [CHR 0xEF, CHR 0xBF, CHR 0xBD]"
  by code_simp

lemma json_string_two_bytes: "json_string [CHR 0xC3, CHR 0xA9] = [CHR 0xC3, CHR 0xA9]"
  by code_simp

lemma json_string_three_bytes:
  "json_string [CHR 0xE2, CHR 0x82, CHR 0xAC] = [CHR 0xE2, CHR 0x82, CHR 0xAC]"
  by code_simp

lemma json_string_surrogate:
  "json_string [CHR 0xED, CHR 0xA0, CHR 0x80] =
     [CHR 0xEF, CHR 0xBF, CHR 0xBD, CHR 0xEF, CHR 0xBF, CHR 0xBD, CHR 0xEF, CHR 0xBF, CHR 0xBD]"
  by code_simp

lemma json_string_fixtures:
  "json_string ''MyApp'' = ''MyApp''"
  "json_string ''localhost:8080'' = ''localhost:8080''"
  "json_string ''http'' = ''http''"
  "json_string '''' = ''''"
  by (simp_all add: json_string_ascii)

text \<open>\<open>bytes_Contains\<close> is the contiguous-sublist relation of the list library.\<close>

lemma bytes_Contains_sublist: "bytes_Contains b s \<longleftrightarrow> sublist s b"
  by (induction b) (auto simp: sublist_Cons_right)











subsection \<open>The health probe\<close>

lemma isNgrokRunning_events: "snd (isNgrokRunning w tc) = [Get (WebInterface tc)]"
  by (simp add: isNgrokRunning_def split: prod.splits option.splits)

text \<open>
  The probe says "not running" only for a response that comes with an error, and "running"
  only for a response without one. An error without a response is the panic.
\<close>

lemma isNgrokRunning_False_iff:
  "fst (isNgrokRunning w tc) = Return False \<longleftrightarrow>
     (\<exists>r e. http_Get w (WebInterface tc) = (Some r, Some e))"
  by (cases "http_Get w (WebInterface tc)") (auto simp: isNgrokRunning_def split: option.splits)

lemma isNgrokRunning_True_iff:
  "fst (isNgrokRunning w tc) = Return True \<longleftrightarrow>
     (\<exists>r. http_Get w (WebInterface tc) = (Some r, None))"
  by (cases "http_Get w (WebInterface tc)") (auto simp: isNgrokRunning_def split: option.splits)

lemma isNgrokRunning_Panic_iff:
  "fst (isNgrokRunning w tc) = Panic \<longleftrightarrow> fst (http_Get w (WebInterface tc)) = None"
  by (cases "http_Get w (WebInterface tc)") (auto simp: isNgrokRunning_def split: option.splits)

subsection \<open>\<^verbatim>\<open>createTunnel\<close>\<close>

lemma createTunnel_events:
  "json_Marshal req = Inr doc \<Longrightarrow>
   snd (snd (createTunnel w tc req publicAddr)) =
     [Post (WebInterface tc @ ''/api/tunnels'') ContentJSONHeaderValue doc]"
  by (auto simp: createTunnel_def Let_def split: prod.splits option.splits sum.splits)

lemma createTunnel_posts:
  "snd (snd (createTunnel w tc req pa)) =
     [Post (WebInterface tc @ ''/api/tunnels'') ContentJSONHeaderValue
        (JObject [(''name'', JString (json_string (tunnelName req))),
                  (''addr'', JString (json_string (tunnelAddr req))),
                  (''proto'', JString (json_string (Proto req))),
                  (''auth'', JString (json_string (Auth req))),
                  (''bind_tls'', JBool (BindTLS req))])]"
  by (rule createTunnel_events) (simp add: json_Marshal_def)

text \<open>What \<^verbatim>\<open>createTunnel\<close> does with a response that decodes.\<close>

lemma createTunnel_decoded:
  assumes "json_Marshal req = Inr doc"
    and "http_Post w (WebInterface tc @ ''/api/tunnels'') ContentJSONHeaderValue doc
           = (Some r, None)"
    and "json_Decode w (Body r) = Inr apiResponse"
  shows "createTunnel w tc req publicAddr =
     (if ErrMsg apiResponse \<noteq> ''''
      then (Return (Some (New (ErrMsg apiResponse))), publicAddr,
            [Post (WebInterface tc @ ''/api/tunnels'') ContentJSONHeaderValue doc])
      else if ErrorText (Details apiResponse) \<noteq> ''''
      then (Return (Some (New (ErrorText (Details apiResponse)))), publicAddr,
            [Post (WebInterface tc @ ''/api/tunnels'') ContentJSONHeaderValue doc])
      else (case publicAddr of
              None \<Rightarrow>
                (Panic, publicAddr,
                 [Post (WebInterface tc @ ''/api/tunnels'') ContentJSONHeaderValue doc])
            | Some old \<Rightarrow>
                (Return None, Some (PublicAddr apiResponse),
                 [Post (WebInterface tc @ ''/api/tunnels'') ContentJSONHeaderValue doc])))"
  using assms by (simp add: createTunnel_def Let_def)

subsection \<open>The readiness loop\<close>

lemma readinessLoop_error:
  "stdout_Read w k = (chunk, Some e) \<Longrightarrow> readinessLoop w k = Some (Some e, Suc k)"
  by (subst readinessLoop.simps) simp

lemma readinessLoop_found:
  "stdout_Read w k = (chunk, None) \<Longrightarrow> bytes_Contains chunk okText \<Longrightarrow>
   readinessLoop w k = Some (None, Suc k)"
  by (subst readinessLoop.simps) simp

lemma readinessLoop_next:
  "stdout_Read w k = (chunk, None) \<Longrightarrow> \<not> bytes_Contains chunk okText \<Longrightarrow>
   readinessLoop w k = readinessLoop w (Suc k)"
  by (subst readinessLoop.simps) simp

text \<open>
  The loop ends well at the first read whose chunk holds the whole phrase, when no read
  before it gave an error.
\<close>

lemma readinessLoop_first_ready:
  assumes quiet: "\<And>j. j < k \<Longrightarrow>
        \<exists>chunk. stdout_Read w j = (chunk, None) \<and> \<not> bytes_Contains chunk okText"
    and ready: "stdout_Read w k = (chunk, None)" "bytes_Contains chunk okText"
  shows "readinessLoop w 0 = Some (None, Suc k)"
proof -
  have "i \<le> k \<Longrightarrow> readinessLoop w (k - i) = Some (None, Suc k)" for i
  proof (induction i)
    case 0
    from readinessLoop_found [OF ready] show ?case by simp
  next
    case (Suc i)
    then have "k - Suc i < k" by simp
    from quiet [OF this] obtain c where c: "stdout_Read w (k - Suc i) = (c, None)"
      and nc: "\<not> bytes_Contains c okText" by blast
    from Suc.prems have "Suc (k - Suc i) = k - i" by simp
    with readinessLoop_next [OF c nc] Suc show ?case by simp
  qed
  from this [of k] show ?thesis by simp
qed

subsection \<open>\<^verbatim>\<open>startTunnel\<close> by the answer of the probe\<close>

lemma startTunnel_up:
  assumes "fst (isNgrokRunning w tc) = Return True"
  shows "startTunnel w tc t pa =
     Some (following [Get (WebInterface tc)] (createTunnel w tc (tunnelAPIRequest t) pa))"
proof -
  have "isNgrokRunning w tc = (Return True, [Get (WebInterface tc)])"
    using assms isNgrokRunning_events [of w tc] by (cases "isNgrokRunning w tc") simp
  then show ?thesis by (simp add: startTunnel_def)
qed

lemma startTunnel_down:
  assumes "fst (isNgrokRunning w tc) = Return False"
  shows "startTunnel w tc t pa =
     (case resolveBinary w tc of (bin, resolved) \<Rightarrow>
        (case bin of
           Inl err \<Rightarrow> Some (Return (Some err), pa, Get (WebInterface tc) # resolved)
         | Inr ngrokBin \<Rightarrow> launch w tc t pa (Get (WebInterface tc) # resolved) ngrokBin))"
proof -
  have "isNgrokRunning w tc = (Return False, [Get (WebInterface tc)])"
    using assms isNgrokRunning_events [of w tc] by (cases "isNgrokRunning w tc") simp
  then show ?thesis by (simp add: startTunnel_def split: prod.splits sum.splits)
qed

lemma startTunnel_panic:
  assumes "fst (isNgrokRunning w tc) = Panic"
  shows "startTunnel w tc t pa = Some (Panic, pa, [Get (WebInterface tc)])"
proof -
  have "isNgrokRunning w tc = (Panic, [Get (WebInterface tc)])"
    using assms isNgrokRunning_events [of w tc] by (cases "isNgrokRunning w tc") simp
  then show ?thesis by (simp add: startTunnel_def)
qed

text \<open>With "running" from the probe the call is the GET and the POST of \<^verbatim>\<open>createTunnel\<close>.\<close>

lemma startTunnel_up_events:
  assumes "fst (isNgrokRunning w tc) = Return True"
  shows "startTunnel w tc t pa =
     Some (fst (createTunnel w tc (tunnelAPIRequest t) pa),
           fst (snd (createTunnel w tc (tunnelAPIRequest t) pa)),
           [Get (WebInterface tc),
            Post (WebInterface tc @ ''/api/tunnels'') ContentJSONHeaderValue
              (JObject [(''name'', JString (json_string (Name t))),
                        (''addr'', JString (json_string (Addr t))),
                        (''proto'', JString ''http''), (''auth'', JString ''''),
                        (''bind_tls'', JBool True)])])"
  using startTunnel_up [OF assms, of t pa] createTunnel_posts [of w tc "tunnelAPIRequest t" pa]
  by (cases "createTunnel w tc (tunnelAPIRequest t) pa")
     (simp add: tunnelAPIRequest_def json_string_fixtures)

lemma spawnAgent_commands:
  "ev \<in> set (snd (spawnAgent w tc b)) \<Longrightarrow> \<exists>args. command ev = Some (b # args)"
  by (auto simp: spawnAgent_def Let_def split: if_splits option.splits)

lemma resolveBinary_lookups:
  "ev \<in> set (snd (resolveBinary w tc)) \<Longrightarrow> ev = LookPath ''ngrok'' \<or> ev = LookupEnv ''NGROK''"
  by (auto simp: resolveBinary_def Let_def split: if_splits option.splits prod.splits)

text \<open>The events of a launch that returns: the commands, the reads, and at most the POST.\<close>

lemma launch_events:
  assumes "launch w tc t pa earlier b = Some (r, c, tr)"
  shows "\<exists>spawned n rest.
           tr = earlier @ spawned @ map Read [0..<n] @ rest
           \<and> (\<forall>ev \<in> set spawned. \<exists>args. command ev = Some (b # args))
           \<and> (rest = [] \<or> rest = snd (snd (createTunnel w tc (tunnelAPIRequest t) pa)))"
proof (cases "spawnAgent w tc b")
  case (Pair err spawned)
  have cmds: "\<forall>ev \<in> set spawned. \<exists>args. command ev = Some (b # args)"
    using spawnAgent_commands [of _ w tc b] Pair by simp
  show ?thesis
  proof (cases err)
    case (Some e)
    with Pair assms have "tr = earlier @ spawned @ map Read [0..<0] @ []"
      by (simp add: launch_def)
    with cmds show ?thesis by blast
  next
    case None
    note spawn_ok = None
    show ?thesis
    proof (cases "readinessLoop w 0")
      case None
      with Pair spawn_ok assms show ?thesis by (simp add: launch_def)
    next
      case (Some res)
      obtain err' n where res: "res = (err', n)" by (cases res)
      show ?thesis
      proof (cases err')
        case (Some e)
        with Pair spawn_ok \<open>readinessLoop w 0 = Some res\<close> res assms
        have "tr = earlier @ spawned @ map Read [0..<n] @ []"
          by (simp add: launch_def)
        with cmds show ?thesis by blast
      next
        case None
        with Pair spawn_ok \<open>readinessLoop w 0 = Some res\<close> res assms
        have "tr = earlier @ spawned @ map Read [0..<n]
                     @ snd (snd (createTunnel w tc (tunnelAPIRequest t) pa))"
          by (cases "createTunnel w tc (tunnelAPIRequest t) pa") (auto simp: launch_def)
        with cmds show ?thesis by blast
      qed
    qed
  qed
qed

lemma launch_ready:
  assumes "spawnAgent w tc b = (None, spawned)" and "readinessLoop w 0 = Some (None, n)"
  shows "launch w tc t pa earlier b =
     Some (following (earlier @ spawned @ map Read [0..<n])
             (createTunnel w tc (tunnelAPIRequest t) pa))"
  using assms by (simp add: launch_def)

text \<open>A call that runs a step of the launcher, or never returns, had "not running" from the probe.\<close>

lemma startTunnel_launcher_steps:
  assumes "startTunnel w tc t pa = Some (r, c, tr)" and "ev \<in> set tr" and "launcher_step ev"
  shows "fst (isNgrokRunning w tc) = Return False"
proof (cases "fst (isNgrokRunning w tc)")
  case Panic
  from startTunnel_panic [OF this, of t pa] assms show ?thesis by auto
next
  case (Return up)
  show ?thesis
  proof (cases up)
    case True
    with Return have "fst (isNgrokRunning w tc) = Return True" by simp
    from startTunnel_up [OF this, of t pa] assms(1)
    have "tr = Get (WebInterface tc) # snd (snd (createTunnel w tc (tunnelAPIRequest t) pa))"
      by (cases "createTunnel w tc (tunnelAPIRequest t) pa") auto
    with assms(2,3) show ?thesis by (auto simp: createTunnel_posts)
  next
    case False
    with Return show ?thesis by simp
  qed
qed

lemma startTunnel_blocks:
  assumes "startTunnel w tc t pa = None"
  shows "fst (isNgrokRunning w tc) = Return False"
proof (cases "fst (isNgrokRunning w tc)")
  case Panic
  from startTunnel_panic [OF this, of t pa] assms show ?thesis by simp
next
  case (Return up)
  show ?thesis
  proof (cases up)
    case True
    with Return have "fst (isNgrokRunning w tc) = Return True" by simp
    from startTunnel_up [OF this, of t pa] assms show ?thesis by simp
  next
    case False
    with Return show ?thesis by simp
  qed
qed

text \<open>Every POST of \<^verbatim>\<open>startTunnel\<close> is the one of its call of \<^verbatim>\<open>createTunnel\<close>.\<close>

lemma startTunnel_posts:
  assumes "startTunnel w tc t pa = Some (r, c, tr)" and "Post url ct doc \<in> set tr"
  shows "Post url ct doc \<in> set (snd (snd (createTunnel w tc (tunnelAPIRequest t) pa)))"
proof (cases "fst (isNgrokRunning w tc)")
  case Panic
  from startTunnel_panic [OF this, of t pa] assms show ?thesis by auto
next
  case (Return up)
  show ?thesis
  proof (cases up)
    case True
    with Return have "fst (isNgrokRunning w tc) = Return True" by simp
    from startTunnel_up [OF this, of t pa] assms show ?thesis
      by (cases "createTunnel w tc (tunnelAPIRequest t) pa") auto
  next
    case False
    with Return have down: "fst (isNgrokRunning w tc) = Return False" by simp
    obtain bin resolved where res: "resolveBinary w tc = (bin, resolved)"
      by (cases "resolveBinary w tc")
    have lookups: "Post url ct doc \<notin> set resolved"
      using resolveBinary_lookups [of "Post url ct doc" w tc] res by auto
    show ?thesis
    proof (cases bin)
      case (Inl err)
      with startTunnel_down [OF down, of t pa] res assms lookups show ?thesis by auto
    next
      case (Inr ngrokBin)
      with startTunnel_down [OF down, of t pa] res assms(1)
      have "launch w tc t pa (Get (WebInterface tc) # resolved) ngrokBin = Some (r, c, tr)"
        by simp
      from launch_events [OF this]
      obtain spawned n rest
        where tr: "tr = (Get (WebInterface tc) # resolved) @ spawned @ map Read [0..<n] @ rest"
        and sp: "\<forall>ev \<in> set spawned. \<exists>args. command ev = Some (ngrokBin # args)"
        and rest: "rest = [] \<or> rest = snd (snd (createTunnel w tc (tunnelAPIRequest t) pa))"
        by blast
      from sp have "Post url ct doc \<notin> set spawned" by fastforce
      with assms(2) tr lookups have "Post url ct doc \<in> set rest" by auto
      with rest show ?thesis by auto
    qed
  qed
qed

subsection \<open>The concrete inputs, evaluated\<close>

lemmas worlds = agentDown_def agentUp_def redirecting_def installed_def withNGROK_def
  reply_def abc123_def refused_def

lemma probe_redirecting:
  assumes "http_Get w = (\<lambda>url. (Some \<lparr>StatusCode = 302, Body = ''''\<rparr>,
                              Some (Lib ''stopped after 10 redirects'')))"
  shows "fst (isNgrokRunning w tc) = Return False"
  by (simp add: isNgrokRunning_def assms)

lemma ready_chunk: "bytes_Contains (hd readyOutput) okText"
  by code_simp

lemma ready_loop:
  assumes "stdout_Read w 0 = (hd readyOutput, None)"
  shows "readinessLoop w 0 = Some (None, Suc 0)"
  by (rule readinessLoop_found [OF assms ready_chunk])

lemma spawn_plain:
  assumes "AuthToken tc = ''''" and "Region tc = ''''"
    and "cmd_StdoutPipe w [b, ''start'', ''-none'', ''-log'', ''stdout''] = None"
    and "cmd_Start w [b, ''start'', ''-none'', ''-log'', ''stdout''] = None"
  shows "spawnAgent w tc b =
     (None, [StdoutPipe [b, ''start'', ''-none'', ''-log'', ''stdout''],
             Start [b, ''start'', ''-none'', ''-log'', ''stdout'']])"
  using assms by (simp add: spawnAgent_def Let_def)

lemma create_abc123:
  assumes "http_Post w = (\<lambda>url ct doc. (Some \<lparr>StatusCode = 201, Body = ''{...}''\<rparr>, None))"
    and "json_Decode w = (\<lambda>body. Inr abc123)"
  shows "createTunnel w (conf b) (tunnelAPIRequest myApp) (Some '''') =
     (Return None, Some ''https://abc123.example.com'',
      [Post ''http://127.0.0.1:4040/api/tunnels'' ''application/json'' myAppDocument])"
  using assms
  by (simp add: createTunnel_def json_Marshal_def tunnelAPIRequest_def myApp_def conf_def
        abc123_def reply_def myAppDocument_def ContentJSONHeaderValue_def json_string_fixtures)

lemma launch_abc123:
  assumes "http_Post w = (\<lambda>url ct doc. (Some \<lparr>StatusCode = 201, Body = ''{...}''\<rparr>, None))"
    and "json_Decode w = (\<lambda>body. Inr abc123)"
    and "cmd_StdoutPipe w = (\<lambda>args. None)" and "cmd_Start w = (\<lambda>args. None)"
    and "stdout_Read w 0 = (hd readyOutput, None)"
  shows "launch w (conf b) myApp (Some '''') earlier bin =
     Some (Return None, Some ''https://abc123.example.com'',
           earlier @
           [StdoutPipe [bin, ''start'', ''-none'', ''-log'', ''stdout''],
            Start [bin, ''start'', ''-none'', ''-log'', ''stdout''],
            Read 0,
            Post ''http://127.0.0.1:4040/api/tunnels'' ''application/json'' myAppDocument])"
proof -
  have spawn: "spawnAgent w (conf b) bin =
     (None, [StdoutPipe [bin, ''start'', ''-none'', ''-log'', ''stdout''],
             Start [bin, ''start'', ''-none'', ''-log'', ''stdout'']])"
    by (rule spawn_plain) (simp_all add: conf_def assms)
  show ?thesis
    by (simp add: launch_ready [OF spawn ready_loop [OF assms(5)]]
          create_abc123 [OF assms(1,2)])
qed

lemma up_abc123:
  "startTunnel (agentUp abc123) (conf b) myApp (Some '''')
     = Some (Return None, Some ''https://abc123.example.com'',
             [Get ''http://127.0.0.1:4040'',
              Post ''http://127.0.0.1:4040/api/tunnels'' ''application/json'' myAppDocument])"
proof -
  have "fst (isNgrokRunning (agentUp abc123) (conf b)) = Return True"
    by (simp add: isNgrokRunning_def worlds)
  moreover
  have "createTunnel (agentUp abc123) (conf b) (tunnelAPIRequest myApp) (Some '''') =
     (Return None, Some ''https://abc123.example.com'',
      [Post ''http://127.0.0.1:4040/api/tunnels'' ''application/json'' myAppDocument])"
    by (rule create_abc123) (simp_all add: worlds)
  moreover have "WebInterface (conf b) = ''http://127.0.0.1:4040''"
    by (simp add: conf_def)
  ultimately show ?thesis
    using startTunnel_up [of "agentUp abc123" "conf b" myApp "Some ''''"] by simp
qed

lemma down_not_found:
  "startTunnel (redirecting readyOutput abc123) (conf '''') myApp (Some '''')
     = Some (Return (Some (New notFound)), Some '''',
             [Get ''http://127.0.0.1:4040'', LookPath ''ngrok'', LookupEnv ''NGROK''])"
proof -
  have "fst (isNgrokRunning (redirecting readyOutput abc123) (conf '''')) = Return False"
    by (rule probe_redirecting) (simp add: worlds)
  moreover have "resolveBinary (redirecting readyOutput abc123) (conf '''') =
      (Inl (New notFound), [LookPath ''ngrok'', LookupEnv ''NGROK''])"
    by (simp add: resolveBinary_def worlds conf_def)
  moreover have "WebInterface (conf '''') = ''http://127.0.0.1:4040''"
    by (simp add: conf_def)
  ultimately show ?thesis
    using startTunnel_down [of "redirecting readyOutput abc123" "conf ''''" myApp "Some ''''"]
    by simp
qed

lemma down_launched:
  "startTunnel (redirecting readyOutput abc123) (conf ''/opt/ngrok'') myApp (Some '''')
     = Some (Return None, Some ''https://abc123.example.com'',
             [Get ''http://127.0.0.1:4040'',
              StdoutPipe [''/opt/ngrok'', ''start'', ''-none'', ''-log'', ''stdout''],
              Start [''/opt/ngrok'', ''start'', ''-none'', ''-log'', ''stdout''],
              Read 0,
              Post ''http://127.0.0.1:4040/api/tunnels'' ''application/json'' myAppDocument])"
proof -
  let ?w = "redirecting readyOutput abc123"
  have p: "fst (isNgrokRunning ?w (conf ''/opt/ngrok'')) = Return False"
    by (rule probe_redirecting) (simp add: worlds)
  have "startTunnel ?w (conf ''/opt/ngrok'') myApp (Some '''') =
      launch ?w (conf ''/opt/ngrok'') myApp (Some '''') [Get ''http://127.0.0.1:4040'']
        ''/opt/ngrok''"
    using startTunnel_down [OF p, of myApp "Some ''''"]
    by (simp add: conf_def resolveBinary_def)
  also have "\<dots> = Some (Return None, Some ''https://abc123.example.com'',
             [Get ''http://127.0.0.1:4040'',
              StdoutPipe [''/opt/ngrok'', ''start'', ''-none'', ''-log'', ''stdout''],
              Start [''/opt/ngrok'', ''start'', ''-none'', ''-log'', ''stdout''],
              Read 0,
              Post ''http://127.0.0.1:4040/api/tunnels'' ''application/json'' myAppDocument])"
    by (subst launch_abc123) (simp_all add: worlds readyOutput_def)
  finally show ?thesis .
qed




text \<open>The output cut in two: neither read holds the phrase, the two together do.\<close>

lemma splitOutput_first: "\<not> bytes_Contains (replicate 250 (CHR ''-'') @ ''client'') okText"
  by code_simp

lemma splitOutput_second: "\<not> bytes_Contains '' session established'' okText"
  by code_simp

lemma splitOutput_whole: "bytes_Contains (concat splitOutput) okText"
  by code_simp

lemma splitOutput_lengths: "map length splitOutput = [256, 20]"
  by code_simp

lemma splitOutput_loop:
  "readinessLoop (redirecting splitOutput r) 0 = Some (Some (Lib ''EOF''), 3)"
proof -
  let ?w = "redirecting splitOutput r"
  have r0: "stdout_Read ?w 0 = (replicate 250 (CHR ''-'') @ ''client'', None)"
    by (simp add: redirecting_def splitOutput_def)
  have r1: "stdout_Read ?w (Suc 0) = ('' session established'', None)"
    by (simp add: redirecting_def splitOutput_def)
  have r2: "stdout_Read ?w (Suc (Suc 0)) = ('''', Some (Lib ''EOF''))"
    by (simp add: redirecting_def splitOutput_def)
  have "readinessLoop ?w 0 = readinessLoop ?w (Suc 0)"
    by (rule readinessLoop_next [OF r0 splitOutput_first])
  also have "\<dots> = readinessLoop ?w (Suc (Suc 0))"
    by (rule readinessLoop_next [OF r1 splitOutput_second])
  also have "\<dots> = Some (Some (Lib ''EOF''), Suc (Suc (Suc 0)))"
    by (rule readinessLoop_error [OF r2])
  finally show ?thesis by (simp add: numeral_3_eq_3)
qed

section \<open>The claims\<close>

subsection \<open>C1: the health probe\<close>

text \<open>
  Claim C1: \<^verbatim>\<open>isNgrokRunning\<close> returns a boolean and never surfaces an error or a crash:
  a GET that fails at the network level is reported as "not running", any response as
  "running".

  The code closes \<^verbatim>\<open>resp.Body\<close> before it looks at the error. A GET that fails at the
  network level (here: connection refused) gives a nil response, so the probe panics with a
  nil pointer dereference instead of returning \<^verbatim>\<open>false\<close>, and \<^verbatim>\<open>startTunnel\<close> panics with
  it instead of starting the agent.
\<close>

theorem isNgrokRunning_panics_when_unreachable:
  "http_Get agentDown (WebInterface (conf '''')) = (None, Some refused)
   \<and> isNgrokRunning agentDown (conf '''') = (Panic, [Get ''http://127.0.0.1:4040''])
   \<and> startTunnel agentDown (conf '''') myApp (Some '''')
       = Some (Panic, Some '''', [Get ''http://127.0.0.1:4040''])"
  by (simp add: worlds conf_def isNgrokRunning_def startTunnel_def)

subsection \<open>C2: the order of the error fields\<close>

text \<open>
  Claim C2: for every decoded create-tunnel response, \<^verbatim>\<open>createTunnel\<close> checks the error
  fields in a fixed order: a non-empty \<^verbatim>\<open>msg\<close> is returned as the error; otherwise a
  non-empty \<^verbatim>\<open>details.err\<close> is returned as the error; only when both are empty is the
  response a success.
\<close>

theorem createTunnel_error_precedence:
  assumes "json_Marshal req = Inr doc"
    and "http_Post w (WebInterface tc @ ''/api/tunnels'') ContentJSONHeaderValue doc
           = (Some r, None)"
    and "json_Decode w (Body r) = Inr apiResponse"
  shows "(ErrMsg apiResponse \<noteq> '''' \<longrightarrow>
            fst (createTunnel w tc req publicAddr) = Return (Some (New (ErrMsg apiResponse))))
       \<and> (ErrMsg apiResponse = '''' \<and> ErrorText (Details apiResponse) \<noteq> '''' \<longrightarrow>
            fst (createTunnel w tc req publicAddr)
              = Return (Some (New (ErrorText (Details apiResponse)))))
       \<and> (fst (createTunnel w tc req publicAddr) = Return None \<longrightarrow>
            ErrMsg apiResponse = '''' \<and> ErrorText (Details apiResponse) = '''')
       \<and> (ErrMsg apiResponse = '''' \<and> ErrorText (Details apiResponse) = ''''
            \<and> publicAddr \<noteq> None \<longrightarrow>
            fst (createTunnel w tc req publicAddr) = Return None)"
  by (auto simp: createTunnel_decoded [OF assms] split: option.splits)

text \<open>
  A reply with both error fields set gives the error of \<^verbatim>\<open>msg\<close>, one with only
  \<^verbatim>\<open>details.err\<close> gives that one, one with neither succeeds.
\<close>

theorem createTunnel_error_precedence_witness:
  "fst (createTunnel
          (agentUp (reply ''https://abc123.example.com'' ''no more addresses''
                      ''ngrok is not yet ready''))
          (conf '''') (tunnelAPIRequest myApp) (Some ''''))
     = Return (Some (New ''ngrok is not yet ready''))
   \<and> fst (createTunnel
            (agentUp (reply ''https://abc123.example.com'' ''no more addresses'' ''''))
            (conf '''') (tunnelAPIRequest myApp) (Some ''''))
     = Return (Some (New ''no more addresses''))
   \<and> fst (createTunnel (agentUp (reply ''https://abc123.example.com'' '''' ''''))
            (conf '''') (tunnelAPIRequest myApp) (Some ''''))
     = Return None"
  using
    createTunnel_error_precedence [of "tunnelAPIRequest myApp" _
      "agentUp (reply ''https://abc123.example.com'' ''no more addresses''
                  ''ngrok is not yet ready'')"
      "conf ''''" _ _ "Some ''''"]
    createTunnel_error_precedence [of "tunnelAPIRequest myApp" _
      "agentUp (reply ''https://abc123.example.com'' ''no more addresses'' '''')"
      "conf ''''" _ _ "Some ''''"]
    createTunnel_error_precedence [of "tunnelAPIRequest myApp" _
      "agentUp (reply ''https://abc123.example.com'' '''' '''')"
      "conf ''''" _ _ "Some ''''"]
  by (simp add: worlds conf_def myApp_def tunnelAPIRequest_def json_Marshal_def
        json_string_fixtures ContentJSONHeaderValue_def)

subsection \<open>C3: a response without a public address\<close>

text \<open>
  Claim C3: when \<^verbatim>\<open>msg\<close> and \<^verbatim>\<open>details.err\<close> are both empty, \<^verbatim>\<open>createTunnel\<close> succeeds
  only when \<^verbatim>\<open>public_url\<close> is non-empty; with an absent or empty public address it returns
  an error with a generic "no address returned" message.

  The code has no such check. A response whose three fields are empty is a success, and the
  empty string is stored as the public address.
\<close>

theorem createTunnel_empty_address_counterexample:
  "ErrMsg (reply '''' '''' '''') = '''' \<and> ErrorText (Details (reply '''' '''' '''')) = ''''
   \<and> PublicAddr (reply '''' '''' '''') = ''''
   \<and> createTunnel (agentUp (reply '''' '''' '''')) (conf '''') (tunnelAPIRequest myApp)
        (Some ''old'')
       = (Return None, Some '''',
          [Post ''http://127.0.0.1:4040/api/tunnels'' ''application/json''
             (JObject [(''name'', JString ''MyApp''), (''addr'', JString ''localhost:8080''),
                       (''proto'', JString ''http''), (''auth'', JString ''''),
                       (''bind_tls'', JBool True)])])"
  by (simp add: worlds conf_def myApp_def tunnelAPIRequest_def json_Marshal_def
        json_string_fixtures ContentJSONHeaderValue_def createTunnel_def)

text \<open>
  C3 as amended: when \<^verbatim>\<open>msg\<close> and \<^verbatim>\<open>details.err\<close> are both empty, \<^verbatim>\<open>createTunnel\<close>
  succeeds and stores the \<^verbatim>\<open>public_url\<close> of the response as it is, the empty string when
  the field is absent or empty.
\<close>

theorem createTunnel_stores_public_url:
  assumes "json_Marshal req = Inr doc"
    and "http_Post w (WebInterface tc @ ''/api/tunnels'') ContentJSONHeaderValue doc
           = (Some r, None)"
    and "json_Decode w (Body r) = Inr apiResponse"
    and "ErrMsg apiResponse = ''''"
    and "ErrorText (Details apiResponse) = ''''"
  shows "createTunnel w tc req (Some old) =
           (Return None, Some (PublicAddr apiResponse),
            [Post (WebInterface tc @ ''/api/tunnels'') ContentJSONHeaderValue doc])"
  using assms(4,5) by (simp add: createTunnel_decoded [OF assms(1-3)])

theorem createTunnel_stores_public_url_witness:
  "createTunnel (agentUp (reply ''https://abc123.example.com'' '''' '''')) (conf '''')
     (tunnelAPIRequest myApp) (Some ''old'')
   = (Return None, Some ''https://abc123.example.com'',
      [Post ''http://127.0.0.1:4040/api/tunnels'' ''application/json''
         (JObject [(''name'', JString ''MyApp''), (''addr'', JString ''localhost:8080''),
                   (''proto'', JString ''http''), (''auth'', JString ''''),
                   (''bind_tls'', JBool True)])])
   \<and> fst (snd (createTunnel (agentUp (reply '''' '''' '''')) (conf '''')
              (tunnelAPIRequest myApp) (Some ''old''))) = Some ''''"
  using
    createTunnel_stores_public_url [of "tunnelAPIRequest myApp" _
      "agentUp (reply ''https://abc123.example.com'' '''' '''')" "conf ''''" _ _ "''old''"]
    createTunnel_stores_public_url [of "tunnelAPIRequest myApp" _
      "agentUp (reply '''' '''' '''')" "conf ''''" _ _ "''old''"]
  by (simp add: worlds conf_def myApp_def tunnelAPIRequest_def json_Marshal_def
        json_string_fixtures ContentJSONHeaderValue_def)

subsection \<open>C4: the readiness phrase across two reads\<close>

text \<open>
  Claim C4: for every output of the agent that contains the phrase
  \<^verbatim>\<open>client session established\<close>, the readiness loop detects it and returns success, also
  when the phrase is split across the boundary of two consecutive reads.

  The loop looks for the phrase in each chunk \<^verbatim>\<open>p[:n]\<close> on its own and keeps nothing of
  the chunk before. With 250 bytes of log before the phrase, the first read of 256 bytes
  ends after \<^verbatim>\<open>client\<close> and the second starts with the rest: the output holds the phrase,
  no chunk does, and when the output ends \<^verbatim>\<open>startTunnel\<close> returns the error of the read
  instead of going on to \<^verbatim>\<open>createTunnel\<close>. (While the agent keeps running the loop would
  block instead.)
\<close>

theorem startTunnel_misses_split_phrase:
  "bytes_Contains (concat splitOutput) okText
   \<and> map length splitOutput = [256, 20]
   \<and> startTunnel (redirecting splitOutput abc123) (conf ''/opt/ngrok'') myApp (Some '''')
     = Some (Return (Some (Lib ''EOF'')), Some '''',
             [Get ''http://127.0.0.1:4040'',
              StdoutPipe [''/opt/ngrok'', ''start'', ''-none'', ''-log'', ''stdout''],
              Start [''/opt/ngrok'', ''start'', ''-none'', ''-log'', ''stdout''],
              Read 0, Read 1, Read 2])"
proof -
  let ?w = "redirecting splitOutput abc123"
  let ?tc = "conf ''/opt/ngrok''"
  have probe: "isNgrokRunning ?w ?tc = (Return False, [Get ''http://127.0.0.1:4040''])"
    by (simp add: isNgrokRunning_def redirecting_def conf_def)
  have bin: "resolveBinary ?w ?tc = (Inr ''/opt/ngrok'', [])"
    by (simp add: resolveBinary_def conf_def)
  have spawn: "spawnAgent ?w ?tc ''/opt/ngrok'' =
      (None, [StdoutPipe [''/opt/ngrok'', ''start'', ''-none'', ''-log'', ''stdout''],
              Start [''/opt/ngrok'', ''start'', ''-none'', ''-log'', ''stdout'']])"
    by (rule spawn_plain) (simp_all add: conf_def worlds)
  have reads: "map Read [0..<3] = [Read 0, Read 1, Read 2]"
    by (simp add: upt_rec)
  show ?thesis
    by (simp add: splitOutput_whole splitOutput_lengths startTunnel_def launch_def probe bin
          spawn splitOutput_loop reads)
qed

subsection \<open>C5: no binary\<close>

text \<open>
  Claim C5: with \<^verbatim>\<open>Bin\<close> unset, no binary on the search path and \<^verbatim>\<open>NGROK\<close> unset,
  \<^verbatim>\<open>startTunnel\<close> fails with the binary-not-found error before any network call is
  attempted.

  The first thing \<^verbatim>\<open>startTunnel\<close> does is the health probe, a GET. When
  \<^verbatim>\<open>isNgrokRunning\<close> returns true, the binary is never looked for and the tunnel is
  created; when it returns false, the error comes after the GET.
\<close>

theorem startTunnel_not_found_counterexample:
  "Bin (conf '''') = ''''
   \<and> snd (exec_LookPath (agentUp abc123) ''ngrok'') \<noteq> None
   \<and> os_LookupEnv (agentUp abc123) ''NGROK'' = None
   \<and> startTunnel (agentUp abc123) (conf '''') myApp (Some '''')
       = Some (Return None, Some ''https://abc123.example.com'',
               [Get ''http://127.0.0.1:4040'',
                Post ''http://127.0.0.1:4040/api/tunnels'' ''application/json'' myAppDocument])
   \<and> snd (exec_LookPath (redirecting readyOutput abc123) ''ngrok'') \<noteq> None
   \<and> os_LookupEnv (redirecting readyOutput abc123) ''NGROK'' = None
   \<and> startTunnel (redirecting readyOutput abc123) (conf '''') myApp (Some '''')
       = Some (Return (Some (New notFound)), Some '''',
               [Get ''http://127.0.0.1:4040'', LookPath ''ngrok'', LookupEnv ''NGROK''])
   \<and> network_call (Get ''http://127.0.0.1:4040'')"
  by (simp add: up_abc123 down_not_found) (simp add: worlds conf_def)

text \<open>
  C5 as amended: with \<^verbatim>\<open>Bin\<close> unset, no binary on the search path and \<^verbatim>\<open>NGROK\<close> unset,
  a call of \<^verbatim>\<open>startTunnel\<close> whose \<^verbatim>\<open>isNgrokRunning\<close> returns false fails with the
  binary-not-found error; the GET of the probe is the only network call it makes, and it
  runs no command. A call whose \<^verbatim>\<open>isNgrokRunning\<close> returns true looks for no binary and
  goes on to \<^verbatim>\<open>createTunnel\<close>: its events are the GET and the POST, and its result is the
  one of \<^verbatim>\<open>createTunnel\<close>.
\<close>

theorem startTunnel_binary_not_found:
  assumes "Bin tc = ''''"
    and "snd (exec_LookPath w ''ngrok'') \<noteq> None"
    and "os_LookupEnv w ''NGROK'' = None"
  shows "(fst (isNgrokRunning w tc) = Return False \<longrightarrow>
            startTunnel w tc t pa =
              Some (Return (Some (New notFound)), pa,
                    [Get (WebInterface tc), LookPath ''ngrok'', LookupEnv ''NGROK''])
            \<and> filter network_call
                 [Get (WebInterface tc), LookPath ''ngrok'', LookupEnv ''NGROK'']
                = [Get (WebInterface tc)]
            \<and> map command [Get (WebInterface tc), LookPath ''ngrok'', LookupEnv ''NGROK'']
                = [None, None, None])
       \<and> (fst (isNgrokRunning w tc) = Return True \<longrightarrow>
            startTunnel w tc t pa =
              Some (fst (createTunnel w tc (tunnelAPIRequest t) pa),
                    fst (snd (createTunnel w tc (tunnelAPIRequest t) pa)),
                    [Get (WebInterface tc),
                     Post (WebInterface tc @ ''/api/tunnels'') ContentJSONHeaderValue
                       (JObject [(''name'', JString (json_string (Name t))),
                                 (''addr'', JString (json_string (Addr t))),
                                 (''proto'', JString ''http''), (''auth'', JString ''''),
                                 (''bind_tls'', JBool True)])]))"
proof (intro conjI impI)
  assume down: "fst (isNgrokRunning w tc) = Return False"
  from assms show "startTunnel w tc t pa =
      Some (Return (Some (New notFound)), pa,
            [Get (WebInterface tc), LookPath ''ngrok'', LookupEnv ''NGROK''])"
    by (auto simp: startTunnel_down [OF down] resolveBinary_def Let_def
             split: prod.splits option.splits)
next
  show "filter network_call [Get (WebInterface tc), LookPath ''ngrok'', LookupEnv ''NGROK'']
          = [Get (WebInterface tc)]"
    by simp
next
  show "map command [Get (WebInterface tc), LookPath ''ngrok'', LookupEnv ''NGROK'']
          = [None, None, None]"
    by simp
next
  assume "fst (isNgrokRunning w tc) = Return True"
  then show "startTunnel w tc t pa =
      Some (fst (createTunnel w tc (tunnelAPIRequest t) pa),
            fst (snd (createTunnel w tc (tunnelAPIRequest t) pa)),
            [Get (WebInterface tc),
             Post (WebInterface tc @ ''/api/tunnels'') ContentJSONHeaderValue
               (JObject [(''name'', JString (json_string (Name t))),
                         (''addr'', JString (json_string (Addr t))),
                         (''proto'', JString ''http''), (''auth'', JString ''''),
                         (''bind_tls'', JBool True)])])"
    by (rule startTunnel_up_events)
qed

text \<open>Both cases, run: a probe that says "not running", and one that says "running".\<close>

theorem startTunnel_binary_not_found_witness:
  "fst (isNgrokRunning (redirecting readyOutput abc123) (conf '''')) = Return False
   \<and> startTunnel (redirecting readyOutput abc123) (conf '''') myApp (Some '''')
       = Some (Return (Some (New notFound)), Some '''',
               [Get ''http://127.0.0.1:4040'', LookPath ''ngrok'', LookupEnv ''NGROK''])
   \<and> fst (isNgrokRunning (agentUp abc123) (conf '''')) = Return True
   \<and> startTunnel (agentUp abc123) (conf '''') myApp (Some '''')
       = Some (Return None, Some ''https://abc123.example.com'',
               [Get ''http://127.0.0.1:4040'',
                Post ''http://127.0.0.1:4040/api/tunnels'' ''application/json''
                  myAppDocument])"
proof -
  let ?down = "redirecting readyOutput abc123"
  let ?up = "agentUp abc123"
  have bin: "Bin (conf '''') = ''''"
    by (simp add: conf_def)
  have path: "snd (exec_LookPath ?down ''ngrok'') \<noteq> None"
    "snd (exec_LookPath ?up ''ngrok'') \<noteq> None"
    by (simp_all add: worlds)
  have env: "os_LookupEnv ?down ''NGROK'' = None" "os_LookupEnv ?up ''NGROK'' = None"
    by (simp_all add: worlds)
  have p: "fst (isNgrokRunning ?down (conf '''')) = Return False"
    by (rule probe_redirecting) (simp add: worlds)
  have q: "fst (isNgrokRunning ?up (conf '''')) = Return True"
    by (simp add: isNgrokRunning_def worlds)
  have url: "WebInterface (conf '''') = ''http://127.0.0.1:4040''"
    by (simp add: conf_def)
  have cr: "createTunnel ?up (conf '''') (tunnelAPIRequest myApp) (Some '''') =
     (Return None, Some ''https://abc123.example.com'',
      [Post ''http://127.0.0.1:4040/api/tunnels'' ''application/json'' myAppDocument])"
    by (rule create_abc123) (simp_all add: worlds)
  have doc: "JObject [(''name'', JString (json_string (Name myApp))),
                     (''addr'', JString (json_string (Addr myApp))),
                     (''proto'', JString ''http''), (''auth'', JString ''''),
                     (''bind_tls'', JBool True)] = myAppDocument"
    by (simp add: myApp_def myAppDocument_def json_string_fixtures)
  from startTunnel_binary_not_found [OF bin path(1) env(1), of myApp "Some ''''",
         THEN conjunct1, rule_format, OF p, THEN conjunct1]
  have a: "startTunnel ?down (conf '''') myApp (Some '''')
       = Some (Return (Some (New notFound)), Some '''',
               [Get ''http://127.0.0.1:4040'', LookPath ''ngrok'', LookupEnv ''NGROK''])"
    by (simp add: url)
  from startTunnel_binary_not_found [OF bin path(2) env(2), of myApp "Some ''''",
         THEN conjunct2, rule_format, OF q]
  have b: "startTunnel ?up (conf '''') myApp (Some '''')
       = Some (Return None, Some ''https://abc123.example.com'',
               [Get ''http://127.0.0.1:4040'',
                Post ''http://127.0.0.1:4040/api/tunnels'' ''application/json''
                  myAppDocument])"
    by (simp add: url cr doc ContentJSONHeaderValue_def)
  from p a q b show ?thesis by (intro conjI)
qed

subsection \<open>C6: the document of the request\<close>

text \<open>
  Claim C6: the JSON document POSTed by \<^verbatim>\<open>createTunnel\<close> consists exactly of the fields
  \<^verbatim>\<open>name\<close>, \<^verbatim>\<open>addr\<close>, \<^verbatim>\<open>proto\<close> with value \<^verbatim>\<open>"http"\<close> and \<^verbatim>\<open>bind_tls\<close> with value
  \<^verbatim>\<open>true\<close>, with no other fields serialized.

  \<^verbatim>\<open>ngrokTunnel\<close> has a fifth field, \<^verbatim>\<open>Auth\<close>, with the tag \<^verbatim>\<open>json:"auth"\<close> and no
  \<^verbatim>\<open>omitempty\<close>: it is in every document.
\<close>

theorem createTunnel_document_counterexample:
  "map fields (posted (snd (snd (createTunnel (agentUp abc123) (conf '''')
                                    (tunnelAPIRequest myApp) (Some '''')))))
     = [[''name'', ''addr'', ''proto'', ''auth'', ''bind_tls'']]
   \<and> [''name'', ''addr'', ''proto'', ''auth'', ''bind_tls'']
       \<noteq> [''name'', ''addr'', ''proto'', ''bind_tls'']"
  by (simp add: createTunnel_posts)

text \<open>
  C6 as amended: the document POSTed by \<^verbatim>\<open>createTunnel\<close> consists exactly of the fields
  \<^verbatim>\<open>name\<close>, \<^verbatim>\<open>addr\<close>, \<^verbatim>\<open>proto\<close>, \<^verbatim>\<open>auth\<close> and \<^verbatim>\<open>bind_tls\<close> of the request, in this
  order, each string as \<^verbatim>\<open>encoding/json\<close> writes it (\<open>json_string\<close>: invalid UTF-8 bytes
  replaced by U+FFFD); in every document \<^verbatim>\<open>startTunnel\<close> posts for a tunnel the fields are
  the name and the address of the tunnel written so, \<^verbatim>\<open>"http"\<close>, the empty string and
  \<^verbatim>\<open>true\<close>, and the document goes to the tunnels collection.
\<close>

theorem createTunnel_posted_document:
  "snd (snd (createTunnel w tc req pa)) =
     [Post (WebInterface tc @ ''/api/tunnels'') ContentJSONHeaderValue
        (JObject [(''name'', JString (json_string (tunnelName req))),
                  (''addr'', JString (json_string (tunnelAddr req))),
                  (''proto'', JString (json_string (Proto req))),
                  (''auth'', JString (json_string (Auth req))),
                  (''bind_tls'', JBool (BindTLS req))])]
   \<and> (\<forall>r c tr url ct doc.
         startTunnel w tc t pa = Some (r, c, tr) \<and> Post url ct doc \<in> set tr \<longrightarrow>
         url = WebInterface tc @ ''/api/tunnels''
         \<and> doc = JObject [(''name'', JString (json_string (Name t))),
                          (''addr'', JString (json_string (Addr t))),
                          (''proto'', JString ''http''), (''auth'', JString ''''),
                          (''bind_tls'', JBool True)])"
proof (intro conjI allI impI)
  show "snd (snd (createTunnel w tc req pa)) =
     [Post (WebInterface tc @ ''/api/tunnels'') ContentJSONHeaderValue
        (JObject [(''name'', JString (json_string (tunnelName req))),
                  (''addr'', JString (json_string (tunnelAddr req))),
                  (''proto'', JString (json_string (Proto req))),
                  (''auth'', JString (json_string (Auth req))),
                  (''bind_tls'', JBool (BindTLS req))])]"
    by (rule createTunnel_posts)
next
  fix r c tr url ct doc
  assume "startTunnel w tc t pa = Some (r, c, tr) \<and> Post url ct doc \<in> set tr"
  then have "Post url ct doc \<in> set (snd (snd (createTunnel w tc (tunnelAPIRequest t) pa)))"
    using startTunnel_posts by blast
  then show "url = WebInterface tc @ ''/api/tunnels''"
    and "doc = JObject [(''name'', JString (json_string (Name t))),
                        (''addr'', JString (json_string (Addr t))),
                        (''proto'', JString ''http''), (''auth'', JString ''''),
                        (''bind_tls'', JBool True)]"
    by (simp_all add: createTunnel_posts tunnelAPIRequest_def json_string_fixtures)
qed

text \<open>
  The document for \<open>myApp\<close>, whose name and address are ASCII and written as they are.
\<close>

theorem createTunnel_posted_document_witness:
  "startTunnel (agentUp abc123) (conf '''') myApp (Some '''')
     = Some (Return None, Some ''https://abc123.example.com'',
             [Get ''http://127.0.0.1:4040'',
              Post ''http://127.0.0.1:4040/api/tunnels'' ''application/json'' myAppDocument])
   \<and> myAppDocument =
       JObject [(''name'', JString ''MyApp''), (''addr'', JString ''localhost:8080''),
                (''proto'', JString ''http''), (''auth'', JString ''''),
                (''bind_tls'', JBool True)]"
proof -
  have posted: "Post ''http://127.0.0.1:4040/api/tunnels'' ''application/json'' myAppDocument
      \<in> set [Get ''http://127.0.0.1:4040'',
               Post ''http://127.0.0.1:4040/api/tunnels'' ''application/json'' myAppDocument]"
    by simp
  from createTunnel_posted_document [of "agentUp abc123" "conf ''''" "tunnelAPIRequest myApp"
      "Some ''''" myApp, THEN conjunct2, rule_format, OF conjI [OF up_abc123 posted]]
  have "myAppDocument =
       JObject [(''name'', JString (json_string (Name myApp))),
                (''addr'', JString (json_string (Addr myApp))),
                (''proto'', JString ''http''), (''auth'', JString ''''),
                (''bind_tls'', JBool True)]"
    by simp
  then have "myAppDocument =
       JObject [(''name'', JString ''MyApp''), (''addr'', JString ''localhost:8080''),
                (''proto'', JString ''http''), (''auth'', JString ''''),
                (''bind_tls'', JBool True)]"
    by (simp add: myApp_def json_string_fixtures)
  with up_abc123 show ?thesis
    by (rule conjI)
qed

subsection \<open>C7: the order of the binary resolution\<close>

text \<open>
  Claim C7: binary resolution in \<^verbatim>\<open>startTunnel\<close> follows a fixed order: a non-empty
  \<^verbatim>\<open>Bin\<close> is used verbatim; otherwise the search path is searched for \<^verbatim>\<open>ngrok\<close>; if that
  fails, the environment variable \<^verbatim>\<open>NGROK\<close> is consulted; if it is unset, \<^verbatim>\<open>startTunnel\<close>
  fails with the binary-not-found error.

  The resolution stands inside \<^verbatim>\<open>if !tc.isNgrokRunning()\<close>. With an agent that answers
  the probe nothing of it happens: a configured binary is not run, and with no binary
  anywhere \<^verbatim>\<open>startTunnel\<close> does not fail but creates the tunnel.
\<close>

theorem startTunnel_resolution_counterexample:
  "Bin (conf ''/opt/ngrok'') = ''/opt/ngrok''
   \<and> startTunnel (agentUp abc123) (conf ''/opt/ngrok'') myApp (Some '''')
       = Some (Return None, Some ''https://abc123.example.com'',
               [Get ''http://127.0.0.1:4040'',
                Post ''http://127.0.0.1:4040/api/tunnels'' ''application/json'' myAppDocument])
   \<and> map command
         [Get ''http://127.0.0.1:4040'',
          Post ''http://127.0.0.1:4040/api/tunnels'' ''application/json'' myAppDocument]
       = [None, None]
   \<and> Bin (conf '''') = ''''
   \<and> snd (exec_LookPath (agentUp abc123) ''ngrok'')
       = Some (Lib ''executable file not found in $PATH'')
   \<and> os_LookupEnv (agentUp abc123) ''NGROK'' = None
   \<and> startTunnel (agentUp abc123) (conf '''') myApp (Some '''')
       = Some (Return None, Some ''https://abc123.example.com'',
               [Get ''http://127.0.0.1:4040'',
                Post ''http://127.0.0.1:4040/api/tunnels'' ''application/json'' myAppDocument])
   \<and> filter launcher_step
         [Get ''http://127.0.0.1:4040'',
          Post ''http://127.0.0.1:4040/api/tunnels'' ''application/json'' myAppDocument]
       = []"
  by (simp add: up_abc123) (simp add: worlds conf_def)

text \<open>
  C7 as amended: in a call of \<^verbatim>\<open>startTunnel\<close> whose \<^verbatim>\<open>isNgrokRunning\<close> returns false,
  binary resolution follows a fixed order: a non-empty \<^verbatim>\<open>Bin\<close> is used verbatim, with no
  lookup; otherwise the search path is searched for \<^verbatim>\<open>ngrok\<close> and that name is used; if
  that fails, \<^verbatim>\<open>NGROK\<close> is consulted and its value used; if it is unset,
  \<^verbatim>\<open>startTunnel\<close> fails with the binary-not-found error. In a call whose
  \<^verbatim>\<open>isNgrokRunning\<close> returns true no binary is resolved or run: the events are the GET and
  the POST.

  In the first three cases the call goes on as \<open>launch\<close> with the binary of the case, after
  exactly the lookups of the case; every command \<open>launch\<close> runs has its binary as program.
\<close>

theorem startTunnel_binary_resolution:
  "(fst (isNgrokRunning w tc) = Return False \<longrightarrow>
      (Bin tc \<noteq> '''' \<longrightarrow>
         startTunnel w tc t pa = launch w tc t pa [Get (WebInterface tc)] (Bin tc))
      \<and> (Bin tc = '''' \<and> snd (exec_LookPath w ''ngrok'') = None \<longrightarrow>
           startTunnel w tc t pa =
             launch w tc t pa [Get (WebInterface tc), LookPath ''ngrok''] ''ngrok'')
      \<and> (\<forall>ngrokEnvVar.
           Bin tc = '''' \<and> snd (exec_LookPath w ''ngrok'') \<noteq> None
           \<and> os_LookupEnv w ''NGROK'' = Some ngrokEnvVar \<longrightarrow>
           startTunnel w tc t pa =
             launch w tc t pa
               [Get (WebInterface tc), LookPath ''ngrok'', LookupEnv ''NGROK''] ngrokEnvVar)
      \<and> (Bin tc = '''' \<and> snd (exec_LookPath w ''ngrok'') \<noteq> None
           \<and> os_LookupEnv w ''NGROK'' = None \<longrightarrow>
           startTunnel w tc t pa =
             Some (Return (Some (New notFound)), pa,
                   [Get (WebInterface tc), LookPath ''ngrok'', LookupEnv ''NGROK''])))
   \<and> (fst (isNgrokRunning w tc) = Return True \<longrightarrow>
        startTunnel w tc t pa =
          Some (fst (createTunnel w tc (tunnelAPIRequest t) pa),
                fst (snd (createTunnel w tc (tunnelAPIRequest t) pa)),
                [Get (WebInterface tc),
                 Post (WebInterface tc @ ''/api/tunnels'') ContentJSONHeaderValue
                   (JObject [(''name'', JString (json_string (Name t))),
                             (''addr'', JString (json_string (Addr t))),
                             (''proto'', JString ''http''), (''auth'', JString ''''),
                             (''bind_tls'', JBool True)])]))
   \<and> (\<forall>earlier ngrokBin r c tr ev args.
        launch w tc t pa earlier ngrokBin = Some (r, c, tr)
        \<and> ev \<in> set (drop (length earlier) tr) \<and> command ev = Some args \<longrightarrow>
        take (length earlier) tr = earlier \<and> hd args = ngrokBin)"
proof -
  have cmds: "take (length earlier) tr = earlier \<and> hd args = ngrokBin"
    if "launch w tc t pa earlier ngrokBin = Some (r, c, tr)
        \<and> ev \<in> set (drop (length earlier) tr) \<and> command ev = Some args"
    for earlier ngrokBin r c tr ev args
  proof -
    from that launch_events [of w tc t pa earlier ngrokBin r c tr]
    obtain spawned n rest where tr: "tr = earlier @ spawned @ map Read [0..<n] @ rest"
      and sp: "\<forall>ev \<in> set spawned. \<exists>args. command ev = Some (ngrokBin # args)"
      and rest: "rest = [] \<or> rest = snd (snd (createTunnel w tc (tunnelAPIRequest t) pa))"
      by blast
    from that tr have "ev \<in> set spawned \<or> ev \<in> set (map Read [0..<n]) \<or> ev \<in> set rest"
      by auto
    then have "hd args = ngrokBin"
    proof (elim disjE)
      assume "ev \<in> set spawned"
      with sp obtain args' where "command ev = Some (ngrokBin # args')" by blast
      with that show ?thesis by auto
    next
      assume "ev \<in> set (map Read [0..<n])"
      with that show ?thesis by auto
    next
      assume "ev \<in> set rest"
      with that rest show ?thesis by (auto simp: createTunnel_posts)
    qed
    with tr show ?thesis by simp
  qed
  have down: "(Bin tc \<noteq> '''' \<longrightarrow>
         startTunnel w tc t pa = launch w tc t pa [Get (WebInterface tc)] (Bin tc))
      \<and> (Bin tc = '''' \<and> snd (exec_LookPath w ''ngrok'') = None \<longrightarrow>
           startTunnel w tc t pa =
             launch w tc t pa [Get (WebInterface tc), LookPath ''ngrok''] ''ngrok'')
      \<and> (\<forall>ngrokEnvVar.
           Bin tc = '''' \<and> snd (exec_LookPath w ''ngrok'') \<noteq> None
           \<and> os_LookupEnv w ''NGROK'' = Some ngrokEnvVar \<longrightarrow>
           startTunnel w tc t pa =
             launch w tc t pa
               [Get (WebInterface tc), LookPath ''ngrok'', LookupEnv ''NGROK''] ngrokEnvVar)
      \<and> (Bin tc = '''' \<and> snd (exec_LookPath w ''ngrok'') \<noteq> None
           \<and> os_LookupEnv w ''NGROK'' = None \<longrightarrow>
           startTunnel w tc t pa =
             Some (Return (Some (New notFound)), pa,
                   [Get (WebInterface tc), LookPath ''ngrok'', LookupEnv ''NGROK'']))"
    if p: "fst (isNgrokRunning w tc) = Return False"
    by (simp add: startTunnel_down [OF p] resolveBinary_def Let_def
          split: prod.splits option.splits)
  from down startTunnel_up_events [of w tc t pa] cmds show ?thesis
    by blast
qed

text \<open>
  The four cases, run: a configured binary, a binary on the search path, a binary named by
  \<^verbatim>\<open>NGROK\<close>, and none; and a call with an agent that is running.
\<close>

theorem startTunnel_binary_resolution_witness:
  "startTunnel (redirecting readyOutput abc123) (conf ''/opt/ngrok'') myApp (Some '''')
     = Some (Return None, Some ''https://abc123.example.com'',
             [Get ''http://127.0.0.1:4040'',
              StdoutPipe [''/opt/ngrok'', ''start'', ''-none'', ''-log'', ''stdout''],
              Start [''/opt/ngrok'', ''start'', ''-none'', ''-log'', ''stdout''],
              Read 0,
              Post ''http://127.0.0.1:4040/api/tunnels'' ''application/json'' myAppDocument])
   \<and> startTunnel (installed (redirecting readyOutput abc123)) (conf '''') myApp (Some '''')
     = Some (Return None, Some ''https://abc123.example.com'',
             [Get ''http://127.0.0.1:4040'', LookPath ''ngrok'',
              StdoutPipe [''ngrok'', ''start'', ''-none'', ''-log'', ''stdout''],
              Start [''ngrok'', ''start'', ''-none'', ''-log'', ''stdout''],
              Read 0,
              Post ''http://127.0.0.1:4040/api/tunnels'' ''application/json'' myAppDocument])
   \<and> startTunnel (withNGROK ''/home/me/ngrok'' (redirecting readyOutput abc123)) (conf '''')
        myApp (Some '''')
     = Some (Return None, Some ''https://abc123.example.com'',
             [Get ''http://127.0.0.1:4040'', LookPath ''ngrok'', LookupEnv ''NGROK'',
              StdoutPipe [''/home/me/ngrok'', ''start'', ''-none'', ''-log'', ''stdout''],
              Start [''/home/me/ngrok'', ''start'', ''-none'', ''-log'', ''stdout''],
              Read 0,
              Post ''http://127.0.0.1:4040/api/tunnels'' ''application/json'' myAppDocument])
   \<and> startTunnel (redirecting readyOutput abc123) (conf '''') myApp (Some '''')
     = Some (Return (Some (New notFound)), Some '''',
             [Get ''http://127.0.0.1:4040'', LookPath ''ngrok'', LookupEnv ''NGROK''])
   \<and> startTunnel (agentUp abc123) (conf ''/opt/ngrok'') myApp (Some '''')
     = Some (Return None, Some ''https://abc123.example.com'',
             [Get ''http://127.0.0.1:4040'',
              Post ''http://127.0.0.1:4040/api/tunnels'' ''application/json'' myAppDocument])"
proof -
  let ?w = "redirecting readyOutput abc123"
  let ?wi = "installed ?w"
  let ?we = "withNGROK ''/home/me/ngrok'' ?w"
  let ?up = "agentUp abc123"
  have p: "fst (isNgrokRunning ?w tc) = Return False" for tc
    by (rule probe_redirecting) (simp add: worlds)
  have pi: "fst (isNgrokRunning ?wi tc) = Return False" for tc
    by (rule probe_redirecting) (simp add: worlds)
  have pe: "fst (isNgrokRunning ?we tc) = Return False" for tc
    by (rule probe_redirecting) (simp add: worlds)
  have q: "fst (isNgrokRunning ?up tc) = Return True" for tc
    by (simp add: isNgrokRunning_def worlds)
  have l: "launch ?w (conf b) myApp (Some '''') earlier bin =
     Some (Return None, Some ''https://abc123.example.com'',
           earlier @
           [StdoutPipe [bin, ''start'', ''-none'', ''-log'', ''stdout''],
            Start [bin, ''start'', ''-none'', ''-log'', ''stdout''],
            Read 0,
            Post ''http://127.0.0.1:4040/api/tunnels'' ''application/json'' myAppDocument])"
    for b earlier bin
    by (rule launch_abc123) (simp_all add: worlds readyOutput_def)
  have li: "launch ?wi (conf b) myApp (Some '''') earlier bin =
     Some (Return None, Some ''https://abc123.example.com'',
           earlier @
           [StdoutPipe [bin, ''start'', ''-none'', ''-log'', ''stdout''],
            Start [bin, ''start'', ''-none'', ''-log'', ''stdout''],
            Read 0,
            Post ''http://127.0.0.1:4040/api/tunnels'' ''application/json'' myAppDocument])"
    for b earlier bin
    by (rule launch_abc123) (simp_all add: worlds readyOutput_def)
  have le: "launch ?we (conf b) myApp (Some '''') earlier bin =
     Some (Return None, Some ''https://abc123.example.com'',
           earlier @
           [StdoutPipe [bin, ''start'', ''-none'', ''-log'', ''stdout''],
            Start [bin, ''start'', ''-none'', ''-log'', ''stdout''],
            Read 0,
            Post ''http://127.0.0.1:4040/api/tunnels'' ''application/json'' myAppDocument])"
    for b earlier bin
    by (rule launch_abc123) (simp_all add: worlds readyOutput_def)
  have cr: "createTunnel ?up (conf ''/opt/ngrok'') (tunnelAPIRequest myApp) (Some '''') =
     (Return None, Some ''https://abc123.example.com'',
      [Post ''http://127.0.0.1:4040/api/tunnels'' ''application/json'' myAppDocument])"
    by (rule create_abc123) (simp_all add: worlds)
  have doc: "JObject [(''name'', JString (json_string (Name myApp))),
                     (''addr'', JString (json_string (Addr myApp))),
                     (''proto'', JString ''http''), (''auth'', JString ''''),
                     (''bind_tls'', JBool True)] = myAppDocument"
    by (simp add: myApp_def myAppDocument_def json_string_fixtures)
  have a: "startTunnel ?w (conf ''/opt/ngrok'') myApp (Some '''') =
      launch ?w (conf ''/opt/ngrok'') myApp (Some '''') [Get ''http://127.0.0.1:4040'']
        ''/opt/ngrok''"
    using startTunnel_binary_resolution [of ?w "conf ''/opt/ngrok''" myApp "Some ''''",
            THEN conjunct1, rule_format, OF p]
    by (simp add: conf_def)
  have b: "startTunnel ?wi (conf '''') myApp (Some '''') =
      launch ?wi (conf '''') myApp (Some '''')
        [Get ''http://127.0.0.1:4040'', LookPath ''ngrok''] ''ngrok''"
    using startTunnel_binary_resolution [of ?wi "conf ''''" myApp "Some ''''",
            THEN conjunct1, rule_format, OF pi]
    by (simp add: conf_def worlds)
  have c: "startTunnel ?we (conf '''') myApp (Some '''') =
      launch ?we (conf '''') myApp (Some '''')
        [Get ''http://127.0.0.1:4040'', LookPath ''ngrok'', LookupEnv ''NGROK'']
        ''/home/me/ngrok''"
    using startTunnel_binary_resolution [of ?we "conf ''''" myApp "Some ''''",
            THEN conjunct1, rule_format, OF pe]
    by (simp add: conf_def worlds)
  have d: "startTunnel ?w (conf '''') myApp (Some '''') =
      Some (Return (Some (New notFound)), Some '''',
            [Get ''http://127.0.0.1:4040'', LookPath ''ngrok'', LookupEnv ''NGROK''])"
    using startTunnel_binary_resolution [of ?w "conf ''''" myApp "Some ''''",
            THEN conjunct1, rule_format, OF p]
    by (simp add: conf_def worlds)
  have e: "startTunnel ?up (conf ''/opt/ngrok'') myApp (Some '''')
     = Some (Return None, Some ''https://abc123.example.com'',
             [Get ''http://127.0.0.1:4040'',
              Post ''http://127.0.0.1:4040/api/tunnels'' ''application/json'' myAppDocument])"
    using startTunnel_binary_resolution [of ?up "conf ''/opt/ngrok''" myApp "Some ''''",
            THEN conjunct2, THEN conjunct1, rule_format, OF q]
    by (simp add: cr doc) (simp add: conf_def ContentJSONHeaderValue_def)
  show ?thesis
    by (simp add: a b c d e l li le)
qed

subsection \<open>C8: an agent that is already running\<close>

text \<open>
  Claim C8: if the health probe of the control API answers, no binary resolution, no auth
  sub-invocation and no process spawn occurs, and \<^verbatim>\<open>startTunnel\<close> proceeds directly to the
  create-tunnel call; spawning is attempted only when the control API is unreachable.

  For the probe an answer is a response without an error. A control API that answers the
  GET with redirects until the client gives up is reached and has answered, yet
  \<^verbatim>\<open>http.Get\<close> hands back the last response with an error, \<^verbatim>\<open>isNgrokRunning\<close> returns
  false, and the agent is started.
\<close>

theorem startTunnel_probe_response_counterexample:
  "http_Get (redirecting readyOutput abc123) (WebInterface (conf ''/opt/ngrok''))
     = (Some \<lparr>StatusCode = 302, Body = ''''\<rparr>, Some (Lib ''stopped after 10 redirects''))
   \<and> startTunnel (redirecting readyOutput abc123) (conf ''/opt/ngrok'') myApp (Some '''')
     = Some (Return None, Some ''https://abc123.example.com'',
             [Get ''http://127.0.0.1:4040'',
              StdoutPipe [''/opt/ngrok'', ''start'', ''-none'', ''-log'', ''stdout''],
              Start [''/opt/ngrok'', ''start'', ''-none'', ''-log'', ''stdout''],
              Read 0,
              Post ''http://127.0.0.1:4040/api/tunnels'' ''application/json'' myAppDocument])
   \<and> launcher_step (Start [''/opt/ngrok'', ''start'', ''-none'', ''-log'', ''stdout''])"
  by (simp add: down_launched) (simp add: worlds)

text \<open>
  C8 as amended: for every invocation of \<^verbatim>\<open>startTunnel\<close>, if the GET of the health probe
  gives a response and no error, then no binary resolution, no auth sub-invocation and no
  process spawn occurs: \<^verbatim>\<open>startTunnel\<close> proceeds directly to the create-tunnel call (its
  events are the GET and the POST, its result the one of \<^verbatim>\<open>createTunnel\<close>). A response
  that comes with an error counts as "not running". Binary resolution, the auth
  sub-invocation, the spawn and the reads of the output are attempted only when the GET
  of the probe gave an error; a call that never returns had such an error too.
\<close>

theorem startTunnel_skips_launch_when_probe_succeeds:
  "(\<forall>resp. http_Get w (WebInterface tc) = (Some resp, None) \<longrightarrow>
       startTunnel w tc t pa =
         Some (fst (createTunnel w tc (tunnelAPIRequest t) pa),
               fst (snd (createTunnel w tc (tunnelAPIRequest t) pa)),
               [Get (WebInterface tc),
                Post (WebInterface tc @ ''/api/tunnels'') ContentJSONHeaderValue
                  (JObject [(''name'', JString (json_string (Name t))),
                            (''addr'', JString (json_string (Addr t))),
                            (''proto'', JString ''http''), (''auth'', JString ''''),
                            (''bind_tls'', JBool True)])]))
   \<and> (\<forall>resp e. http_Get w (WebInterface tc) = (Some resp, Some e) \<longrightarrow>
         fst (isNgrokRunning w tc) = Return False)
   \<and> (\<forall>r c tr ev. startTunnel w tc t pa = Some (r, c, tr) \<and> ev \<in> set tr \<and> launcher_step ev \<longrightarrow>
         snd (http_Get w (WebInterface tc)) \<noteq> None)
   \<and> (startTunnel w tc t pa = None \<longrightarrow> snd (http_Get w (WebInterface tc)) \<noteq> None)"
proof (intro conjI allI impI)
  fix resp
  assume "http_Get w (WebInterface tc) = (Some resp, None)"
  then have "fst (isNgrokRunning w tc) = Return True"
    by (simp add: isNgrokRunning_True_iff)
  then show "startTunnel w tc t pa =
         Some (fst (createTunnel w tc (tunnelAPIRequest t) pa),
               fst (snd (createTunnel w tc (tunnelAPIRequest t) pa)),
               [Get (WebInterface tc),
                Post (WebInterface tc @ ''/api/tunnels'') ContentJSONHeaderValue
                  (JObject [(''name'', JString (json_string (Name t))),
                            (''addr'', JString (json_string (Addr t))),
                            (''proto'', JString ''http''), (''auth'', JString ''''),
                            (''bind_tls'', JBool True)])])"
    by (rule startTunnel_up_events)
next
  fix resp e
  assume "http_Get w (WebInterface tc) = (Some resp, Some e)"
  then show "fst (isNgrokRunning w tc) = Return False"
    by (simp add: isNgrokRunning_False_iff)
next
  fix r c tr ev
  assume "startTunnel w tc t pa = Some (r, c, tr) \<and> ev \<in> set tr \<and> launcher_step ev"
  then have "fst (isNgrokRunning w tc) = Return False"
    using startTunnel_launcher_steps by blast
  then show "snd (http_Get w (WebInterface tc)) \<noteq> None"
    by (auto simp: isNgrokRunning_False_iff)
next
  assume "startTunnel w tc t pa = None"
  then have "fst (isNgrokRunning w tc) = Return False"
    by (rule startTunnel_blocks)
  then show "snd (http_Get w (WebInterface tc)) \<noteq> None"
    by (auto simp: isNgrokRunning_False_iff)
qed

text \<open>
  An agent that answers the probe without error gets the POST at once; one whose probe
  ends in an error is started first.
\<close>

theorem startTunnel_skips_launch_when_probe_succeeds_witness:
  "http_Get (agentUp abc123) (WebInterface (conf ''''))
     = (Some \<lparr>StatusCode = 200, Body = ''<html>''\<rparr>, None)
   \<and> startTunnel (agentUp abc123) (conf '''') myApp (Some '''')
     = Some (Return None, Some ''https://abc123.example.com'',
             [Get ''http://127.0.0.1:4040'',
              Post ''http://127.0.0.1:4040/api/tunnels'' ''application/json'' myAppDocument])
   \<and> fst (isNgrokRunning (redirecting readyOutput abc123) (conf ''/opt/ngrok''))
       = Return False
   \<and> startTunnel (redirecting readyOutput abc123) (conf ''/opt/ngrok'') myApp (Some '''')
     = Some (Return None, Some ''https://abc123.example.com'',
             [Get ''http://127.0.0.1:4040'',
              StdoutPipe [''/opt/ngrok'', ''start'', ''-none'', ''-log'', ''stdout''],
              Start [''/opt/ngrok'', ''start'', ''-none'', ''-log'', ''stdout''],
              Read 0,
              Post ''http://127.0.0.1:4040/api/tunnels'' ''application/json'' myAppDocument])
   \<and> snd (http_Get (redirecting readyOutput abc123) (WebInterface (conf ''/opt/ngrok'')))
       \<noteq> None"
proof -
  let ?w = "redirecting readyOutput abc123"
  let ?tc = "conf ''/opt/ngrok''"
  have g: "http_Get (agentUp abc123) (WebInterface (conf ''''))
             = (Some \<lparr>StatusCode = 200, Body = ''<html>''\<rparr>, None)"
    by (simp add: worlds)
  have cr: "createTunnel (agentUp abc123) (conf '''') (tunnelAPIRequest myApp) (Some '''') =
     (Return None, Some ''https://abc123.example.com'',
      [Post ''http://127.0.0.1:4040/api/tunnels'' ''application/json'' myAppDocument])"
    by (rule create_abc123) (simp_all add: worlds)
  have doc: "JObject [(''name'', JString (json_string (Name myApp))),
                     (''addr'', JString (json_string (Addr myApp))),
                     (''proto'', JString ''http''), (''auth'', JString ''''),
                     (''bind_tls'', JBool True)] = myAppDocument"
    by (simp add: myApp_def myAppDocument_def json_string_fixtures)
  note up_inst =
    startTunnel_skips_launch_when_probe_succeeds
      [of "agentUp abc123" "conf ''''" myApp "Some ''''"]
  from up_inst [THEN conjunct1, rule_format, OF g]
  have up: "startTunnel (agentUp abc123) (conf '''') myApp (Some '''')
     = Some (Return None, Some ''https://abc123.example.com'',
             [Get ''http://127.0.0.1:4040'',
              Post ''http://127.0.0.1:4040/api/tunnels'' ''application/json'' myAppDocument])"
    by (simp add: cr doc) (simp add: conf_def ContentJSONHeaderValue_def)
  note down_inst =
    startTunnel_skips_launch_when_probe_succeeds [of ?w ?tc myApp "Some ''''"]
  have gr: "http_Get ?w (WebInterface ?tc)
      = (Some \<lparr>StatusCode = 302, Body = ''''\<rparr>, Some (Lib ''stopped after 10 redirects''))"
    by (simp add: worlds)
  from down_inst [THEN conjunct2, THEN conjunct1, rule_format, OF gr]
  have notrunning: "fst (isNgrokRunning ?w ?tc) = Return False" .
  have step: "Start [''/opt/ngrok'', ''start'', ''-none'', ''-log'', ''stdout'']
      \<in> set [Get ''http://127.0.0.1:4040'',
              StdoutPipe [''/opt/ngrok'', ''start'', ''-none'', ''-log'', ''stdout''],
              Start [''/opt/ngrok'', ''start'', ''-none'', ''-log'', ''stdout''],
              Read 0,
              Post ''http://127.0.0.1:4040/api/tunnels'' ''application/json'' myAppDocument]"
    by simp
  have "launcher_step (Start [''/opt/ngrok'', ''start'', ''-none'', ''-log'', ''stdout''])"
    by simp
  with down_launched step
  have err: "snd (http_Get ?w (WebInterface ?tc)) \<noteq> None"
    using down_inst [THEN conjunct2, THEN conjunct2, THEN conjunct1, rule_format] by blast
  from g up notrunning down_launched err show ?thesis
    by (intro conjI)
qed

subsection \<open>C9: closing a tunnel\<close>




subsection \<open>C10: the out-parameter\<close>

text \<open>
  Claim C10: \<^verbatim>\<open>createTunnel\<close> is atomic with respect to \<^verbatim>\<open>publicAddr\<close>: on every error
  return the string it points to is left unchanged; it is written exactly when
  \<^verbatim>\<open>createTunnel\<close> returns without error.

  Whatever does not return \<^verbatim>\<open>nil\<close> (an error, or the panic) leaves the cell as it was; a
  return of \<^verbatim>\<open>nil\<close> comes from a decoded response with both error fields empty and leaves
  its \<^verbatim>\<open>public_url\<close> in the cell.
\<close>

theorem createTunnel_publicAddr_atomic:
  assumes "createTunnel w tc req publicAddr = (res, cell, events)"
  shows "(res \<noteq> Return None \<longrightarrow> cell = publicAddr)
       \<and> (res = Return None \<longrightarrow>
            (\<exists>doc r apiResponse.
               json_Marshal req = Inr doc
               \<and> http_Post w (WebInterface tc @ ''/api/tunnels'') ContentJSONHeaderValue doc
                   = (Some r, None)
               \<and> json_Decode w (Body r) = Inr apiResponse
               \<and> ErrMsg apiResponse = '''' \<and> ErrorText (Details apiResponse) = ''''
               \<and> publicAddr \<noteq> None
               \<and> cell = Some (PublicAddr apiResponse)))"
  using assms
  by (auto simp: createTunnel_def json_Marshal_def Let_def
           split: prod.splits option.splits sum.splits if_splits)

text \<open>A POST that fails leaves the old address; a success replaces it.\<close>

theorem createTunnel_publicAddr_atomic_witness:
  "createTunnel agentDown (conf '''') (tunnelAPIRequest myApp) (Some ''old'')
     = (Return (Some refused), Some ''old'',
        [Post ''http://127.0.0.1:4040/api/tunnels'' ''application/json'' myAppDocument])
   \<and> Return (Some refused) \<noteq> (Return None :: error option outcome)
   \<and> createTunnel (agentUp abc123) (conf '''') (tunnelAPIRequest myApp) (Some ''old'')
     = (Return None, Some ''https://abc123.example.com'',
        [Post ''http://127.0.0.1:4040/api/tunnels'' ''application/json'' myAppDocument])"
  using
    createTunnel_publicAddr_atomic [of agentDown "conf ''''" "tunnelAPIRequest myApp"
      "Some ''old''" "Return (Some refused)" "Some ''old''"
      "[Post ''http://127.0.0.1:4040/api/tunnels'' ''application/json'' myAppDocument]"]
    createTunnel_publicAddr_atomic [of "agentUp abc123" "conf ''''" "tunnelAPIRequest myApp"
      "Some ''old''" "Return None" "Some ''https://abc123.example.com''"
      "[Post ''http://127.0.0.1:4040/api/tunnels'' ''application/json'' myAppDocument]"]
  by (simp add: worlds conf_def myApp_def tunnelAPIRequest_def json_Marshal_def
        json_string_fixtures ContentJSONHeaderValue_def myAppDocument_def createTunnel_def)

end
